theory Spec2Isabelle
  imports Main "HOL-Library.Sublist"
begin

section \<open>Python text primitives used by \<open>bcr_merge_cli.py\<close>\<close>

text \<open>
  A Python \<open>str\<close> is modelled as a \<open>string\<close>; a \<open>char\<close> stands for a code point
  below 256. \<open>str.strip\<close> and \<open>str.split\<close> (without argument) work on the characters
  for which \<open>str.isspace\<close> holds; in that range these are the twelve listed here.
\<close>

definition whitespace :: "char list" where
  "whitespace =
     [CHR 0x09, CHR 0x0A, CHR 0x0B, CHR 0x0C, CHR 0x0D,
      CHR 0x1C, CHR 0x1D, CHR 0x1E, CHR 0x1F, CHR 0x20, CHR 0x85, CHR 0xA0]"

definition isspace :: "char \<Rightarrow> bool" where
  "isspace c = (c \<in> set whitespace)"

definition lstrip :: "string \<Rightarrow> string" where
  "lstrip s = dropWhile isspace s"

definition rstrip :: "string \<Rightarrow> string" where
  "rstrip s = rev (dropWhile isspace (rev s))"

definition strip :: "string \<Rightarrow> string" where
  "strip s = lstrip (rstrip s)"

text \<open>\<open>s.startswith(p)\<close> and \<open>s.endswith(x)\<close>.\<close>

definition startswith :: "string \<Rightarrow> string \<Rightarrow> bool" where
  "startswith s p = prefix p s"

definition endswith :: "string \<Rightarrow> string \<Rightarrow> bool" where
  "endswith s x = suffix x s"

text \<open>\<open>s[: -n]\<close> for a positive \<open>n\<close>: all but the last \<open>n\<close> characters.\<close>

definition drop_tail :: "nat \<Rightarrow> string \<Rightarrow> string" where
  "drop_tail n s = take (length s - n) s"

text \<open>\<open>s.replace(c, "")\<close> for a one-character \<open>c\<close>: every occurrence goes.\<close>

definition remove_char :: "char \<Rightarrow> string \<Rightarrow> string" where
  "remove_char c s = filter (\<lambda>d. d \<noteq> c) s"

text \<open>
  \<open>s.split(sep)[0]\<close> for a non-empty \<open>sep\<close>: the text before the first occurrence of
  \<open>sep\<close>, the whole of \<open>s\<close> when there is none. The test \<open>sep in s\<close> is \<^const>\<open>sublist\<close>.
\<close>

fun before_first :: "string \<Rightarrow> string \<Rightarrow> string" where
  "before_first sep [] = []"
| "before_first sep (c # cs) =
     (if prefix sep (c # cs) then [] else c # before_first sep cs)"

text \<open>
  \<open>s.split()\<close>: the maximal runs of non-whitespace characters, in order; leading and
  trailing whitespace give no empty item.
\<close>

function split_ws :: "string \<Rightarrow> string list" where
  "split_ws s =
     (if dropWhile isspace s = [] then []
      else takeWhile (\<lambda>c. \<not> isspace c) (dropWhile isspace s)
           # split_ws (dropWhile (\<lambda>c. \<not> isspace c) (dropWhile isspace s)))"
  by pat_completeness auto
termination
proof (relation "measure length")
  show "wf (measure length)" by simp
next
  fix s :: string
  assume ne: "dropWhile isspace s \<noteq> []"
  then obtain c cs where cs: "dropWhile isspace s = c # cs"
    by (cases "dropWhile isspace s") auto
  then have "\<not> isspace c"
    using hd_dropWhile [of isspace s] by simp
  then have "length (dropWhile (\<lambda>c. \<not> isspace c) (c # cs)) \<le> length cs"
    by (simp add: length_dropWhile_le)
  moreover have "length (c # cs) \<le> length s"
    using length_dropWhile_le [of isspace s] cs by simp
  ultimately show
    "(dropWhile (\<lambda>c. \<not> isspace c) (dropWhile isspace s), s) \<in> measure length"
    using cs by simp
qed

declare split_ws.simps [simp del]

text \<open>\<open>str(n)\<close> for an \<open>int\<close>: decimal digits, with a minus sign below zero.\<close>

definition digit_char :: "nat \<Rightarrow> char" where
  "digit_char d = char_of (48 + d)"

function str_nat :: "nat \<Rightarrow> string" where
  "str_nat n = (if n < 10 then [digit_char n] else str_nat (n div 10) @ [digit_char (n mod 10)])"
  by pat_completeness auto
termination
  by (relation "measure id") auto

declare str_nat.simps [simp del]

definition str_int :: "int \<Rightarrow> string" where
  "str_int i = (if i < 0 then CHR ''-'' # str_nat (nat (- i)) else str_nat (nat i))"

section \<open>Naming: \<open>infer_prefix\<close>, \<open>mode_label\<close>, \<open>validate_run_id\<close>\<close>

datatype exn =
    ValueError string
  | FileNotFoundError string
  | IndexError
  | CalledProcessError
  | OSError

text \<open>
  \<open>infer_prefix\<close> works on \<open>r1_path.name\<close>, the file name of R1. Its first loop removes
  the first FASTQ suffix of the list that the name ends with and leaves the loop;
  its second loop returns at the first marker the remaining name ends with.
\<close>

definition fastq_suffixes :: "string list" where
  "fastq_suffixes = [''.fastq.gz'', ''.fq.gz'', ''.fastq'', ''.fq'']"

definition r1_markers :: "string list" where
  "r1_markers = [''_R1_001'', ''_R1'', ''-R1'', ''.R1'']"

fun strip_first_suffix :: "string list \<Rightarrow> string \<Rightarrow> string" where
  "strip_first_suffix [] name = name"
| "strip_first_suffix (sfx # rest) name =
     (if endswith name sfx then drop_tail (length sfx) name
      else strip_first_suffix rest name)"

fun strip_first_marker :: "string list \<Rightarrow> string \<Rightarrow> string option" where
  "strip_first_marker [] name = None"
| "strip_first_marker (marker # rest) name =
     (if endswith name marker then Some (drop_tail (length marker) name)
      else strip_first_marker rest name)"

definition infer_prefix :: "string \<Rightarrow> string" where
  "infer_prefix r1_name =
     (let name = strip_first_suffix fastq_suffixes r1_name in
      case strip_first_marker r1_markers name of
        Some p \<Rightarrow> p
      | None \<Rightarrow> if sublist ''_R1_'' name then before_first ''_R1_'' name else name)"

text \<open>\<open>MODE_LABELS.get(mode, mode)\<close>.\<close>

definition MODE_LABELS :: "(string \<times> string) list" where
  "MODE_LABELS =
     [(''merge-only'', ''withoutTrim''),
      (''trim-merge'', ''trimThenMerge''),
      (''merge-trim'', ''mergeThenTrim'')]"

definition mode_label :: "string \<Rightarrow> string" where
  "mode_label mode = (case map_of MODE_LABELS mode of Some l \<Rightarrow> l | None \<Rightarrow> mode)"

text \<open>The f-string of line 366 of \<open>main\<close>.\<close>

definition run_name :: "string \<Rightarrow> string \<Rightarrow> string \<Rightarrow> string" where
  "run_name prefix_base mode run_id = prefix_base @ ''_'' @ mode_label mode @ ''_'' @ run_id"

definition invalid_chars :: string where
  "invalid_chars = ''<>:'' @ [CHR 0x22] @ ''/'' @ [CHR 0x5C] @ ''|?*''"

definition validate_run_id :: "string \<Rightarrow> exn + unit" where
  "validate_run_id run_id =
     (if \<exists>ch \<in> set run_id. ch \<in> set invalid_chars
      then Inl (ValueError (''--run-id contains invalid characters: '' @ invalid_chars))
      else Inr ())"

section \<open>Adapters\<close>

definition sanitize_adapter :: "string \<Rightarrow> string" where
  "sanitize_adapter seq = remove_char (CHR ''$'') (remove_char (CHR ''^'') (strip seq))"

definition ensure_prefix :: "string \<Rightarrow> string \<Rightarrow> string" where
  "ensure_prefix seq pre =
     (let seq = strip seq in if startswith seq pre then seq else pre @ seq)"

definition ensure_suffix :: "string \<Rightarrow> string \<Rightarrow> string" where
  "ensure_suffix seq suf =
     (let seq = strip seq in if endswith seq suf then seq else seq @ suf)"

section \<open>FASTQ to FASTA\<close>

text \<open>
  \<open>fin.readline()\<close> on the text that is left: the line up to and including its newline
  (or up to the end of the text), and the rest. At the end of the text the line is empty.
\<close>

fun readline :: "string \<Rightarrow> string \<times> string" where
  "readline [] = ([], [])"
| "readline (c # cs) =
     (if c = CHR 0x0A then ([c], cs)
      else (case readline cs of (line, rest) \<Rightarrow> (c # line, rest)))"

lemma readline_length: "length (snd (readline s)) \<le> length s"
  by (induction s) (auto split: prod.splits)

lemma readline_shorter: "s \<noteq> [] \<Longrightarrow> length (snd (readline s)) < length s"
  using readline_length [of "tl s"] by (cases s) (auto simp: less_Suc_eq_le split: prod.splits)

lemma readline4_shorter:
  assumes "fst (readline fin) \<noteq> []"
  shows "length (snd (readline (snd (readline (snd (readline (snd (readline fin))))))))
           < length fin"
proof -
  from assms have "fin \<noteq> []" by (cases fin) auto
  then have "length (snd (readline fin)) < length fin"
    by (rule readline_shorter)
  moreover have "length (snd (readline (snd (readline (snd (readline (snd (readline fin))))))))
      \<le> length (snd (readline fin))"
    by (meson readline_length order_trans)
  ultimately show ?thesis by simp
qed

text \<open>
  Lines 229 to 232 up to the index: the header line stripped, without one leading \<open>@\<close>,
  split at whitespace. The loop takes item 0 of this list.
\<close>

definition header_fields :: "string \<Rightarrow> string list" where
  "header_fields header =
     (let header = strip header;
          header = (if startswith header ''@'' then drop 1 header else header)
      in split_ws header)"

text \<open>
  The loop of \<open>fastq_to_fasta\<close> over the text of the input file. The result is the text
  written to the output file and the exception that ended the loop, if any: what was
  written before a \<open>raise\<close> stays written.
\<close>

function fastq_to_fasta_loop :: "string \<Rightarrow> string \<times> exn option" where
  "fastq_to_fasta_loop fin =
     (let header = fst (readline fin); fin1 = snd (readline fin) in
      if header = [] then ([], None)
      else
        let seq = fst (readline fin1); fin2 = snd (readline fin1);
            plus = fst (readline fin2); fin3 = snd (readline fin2);
            qual = fst (readline fin3); fin4 = snd (readline fin3)
        in
          if qual = [] then ([], Some (ValueError ''Truncated FASTQ record detected.''))
          else
            case header_fields header of
              [] \<Rightarrow> ([], Some IndexError)
            | header # _ \<Rightarrow>
                (let r = fastq_to_fasta_loop fin4 in
                 (''>'' @ header @ [CHR 0x0A] @ strip seq @ [CHR 0x0A] @ fst r, snd r)))"
  by pat_completeness auto
termination
  by (relation "measure length") (auto intro: readline4_shorter)

declare fastq_to_fasta_loop.simps [simp del]

section \<open>The environment: paths, file system, processes\<close>

text \<open>
  A \<open>pathlib.Path\<close> is modelled by its \<open>str()\<close>. What the program does to the world
  outside it is recorded, in order, as a trace of events; an \<open>Exists\<close> event holds the
  answer the file system gave.
\<close>

type_synonym path = string

datatype event =
    Exists path bool
  | Mkdir path
  | Stdout string
  | Stderr string
  | Subprocess "string list" "path option"
  | OpenRead path
  | WriteText path string

text \<open>
  Everything the program calls but does not define (\<open>pathlib\<close>, \<open>os\<close>, \<open>shutil\<close>,
  \<open>subprocess\<close>, \<open>datetime\<close>, \<open>open\<close>) is a field of the environment; \<open>'w\<close> is the state
  of the file system. A call that can raise returns \<open>exn + _\<close>.
  \<^item> \<open>os_mkdir\<close> is \<open>Path.mkdir(parents=True, exist_ok=True)\<close>;
  \<^item> \<open>subprocess_run\<close> is \<open>subprocess.run(cmd, check=True, cwd=...)\<close>: a non-zero exit
    status is the exception \<open>CalledProcessError\<close>;
  \<^item> \<open>now_strftime\<close> is \<open>datetime.now().strftime("%Y%m%d_%H%M%S")\<close> at the one place
    where \<open>main\<close> reads the clock;
  \<^item> \<open>open_read gz\<close> is the decoded text of a file opened with \<open>gzip.open\<close> (\<open>gz\<close>) or
    \<open>open\<close>; \<open>open_write\<close> replaces the text of a file.
\<close>

record 'w env =
  path_of :: "string \<Rightarrow> path"
  path_parent :: "path \<Rightarrow> path"
  path_name :: "path \<Rightarrow> string"
  path_suffix :: "path \<Rightarrow> string"
  path_join :: "path \<Rightarrow> string \<Rightarrow> path"
  path_is_absolute :: "path \<Rightarrow> bool"
  path_with_suffix :: "path \<Rightarrow> string \<Rightarrow> path"
  path_exists :: "'w \<Rightarrow> path \<Rightarrow> bool"
  os_mkdir :: "path \<Rightarrow> 'w \<Rightarrow> exn + 'w"
  subprocess_run :: "string list \<Rightarrow> path option \<Rightarrow> 'w \<Rightarrow> exn + 'w"
  shutil_which :: "'w \<Rightarrow> string \<Rightarrow> string option"
  environ_get :: "string \<Rightarrow> string option"
  sys_executable :: string
  now_strftime :: string
  list2cmdline :: "string list \<Rightarrow> string"
  open_read :: "bool \<Rightarrow> 'w \<Rightarrow> path \<Rightarrow> exn + string"
  open_write :: "path \<Rightarrow> string \<Rightarrow> 'w \<Rightarrow> exn + 'w"

text \<open>
  The namespace \<open>parse_args\<close> returns; the field \<open>args.mode\<close> is \<open>arg_mode\<close>, and so on.
  An option that was not given is \<open>None\<close>. The error rate is a \<open>float\<close> that the program
  only ever renders with \<open>str()\<close>; the field holds that rendering.
\<close>

record args =
  arg_mode :: string
  arg_r1 :: string
  arg_r2 :: string
  arg_outdir :: "string option"
  arg_prefix :: "string option"
  arg_assemble_prefix :: "string option"
  arg_run_id :: "string option"
  arg_log :: "string option"
  arg_threads :: int
  arg_cutadapt_error_rate :: string
  arg_cutadapt_overlap :: int
  arg_cutadapt_min_length :: int
  arg_adapter_5p_r1 :: string
  arg_adapter_5p_r2 :: string
  arg_adapter_3p_r1 :: string
  arg_adapter_3p_r2 :: string
  arg_coord :: string
  arg_rc :: string
  arg_failed :: bool
  arg_swap_r1r2 :: bool
  arg_dry_run :: bool

text \<open>The dict \<open>adapters\<close> of \<open>main\<close>, with its four fixed keys.\<close>

record adapters =
  r1_5p :: string
  r2_5p :: string
  r1_3p :: string
  r2_3p :: string

text \<open>Truthiness of an optional string: \<open>None\<close> and \<open>""\<close> are false.\<close>

definition nonempty :: "string option \<Rightarrow> string option" where
  "nonempty x = (case x of None \<Rightarrow> None | Some s \<Rightarrow> if s = [] then None else Some s)"

subsection \<open>State, trace and exceptions\<close>

type_synonym 'w state = "event list \<times> 'w"

type_synonym ('w, 'a) io = "'w state \<Rightarrow> (exn + 'a) \<times> 'w state"

definition ret :: "'a \<Rightarrow> ('w, 'a) io" where
  "ret x s = (Inr x, s)"

definition raise :: "exn \<Rightarrow> ('w, 'a) io" where
  "raise e s = (Inl e, s)"

definition bind :: "('w, 'a) io \<Rightarrow> ('a \<Rightarrow> ('w, 'b) io) \<Rightarrow> ('w, 'b) io" where
  "bind m f s = (case m s of (Inl e, s') \<Rightarrow> (Inl e, s') | (Inr x, s') \<Rightarrow> f x s')"

definition emit :: "event \<Rightarrow> ('w, unit) io" where
  "emit ev s = (Inr (), (fst s @ [ev], snd s))"

definition os_read :: "('w \<Rightarrow> 'a) \<Rightarrow> ('w, 'a) io" where
  "os_read f s = (Inr (f (snd s)), s)"

definition os_call :: "('w \<Rightarrow> exn + 'w) \<Rightarrow> ('w, unit) io" where
  "os_call f s = (case f (snd s) of Inl e \<Rightarrow> (Inl e, s) | Inr w \<Rightarrow> (Inr (), (fst s, w)))"

definition lift_result :: "exn + 'a \<Rightarrow> ('w, 'a) io" where
  "lift_result r = (case r of Inl e \<Rightarrow> raise e | Inr x \<Rightarrow> ret x)"

text \<open>\<open>a and b\<close>: \<open>b\<close> is evaluated only when \<open>a\<close> is true.\<close>

definition and_then :: "bool \<Rightarrow> ('w, bool) io \<Rightarrow> ('w, bool) io" where
  "and_then a b = (if a then b else ret False)"

definition exists_p :: "'w env \<Rightarrow> path \<Rightarrow> ('w, bool) io" where
  "exists_p env p =
     bind (os_read (\<lambda>w. path_exists env w p)) (\<lambda>b.
     bind (emit (Exists p b)) (\<lambda>_. ret b))"

definition mkdir :: "'w env \<Rightarrow> path \<Rightarrow> ('w, unit) io" where
  "mkdir env p = bind (emit (Mkdir p)) (\<lambda>_. os_call (os_mkdir env p))"

definition print :: "string \<Rightarrow> ('w, unit) io" where
  "print s = emit (Stdout s)"

definition print_err :: "string \<Rightarrow> ('w, unit) io" where
  "print_err s = emit (Stderr s)"

section \<open>Locating and running the external tools\<close>

definition which_assemblepairs :: "'w env \<Rightarrow> ('w, path) io" where
  "which_assemblepairs env =
     bind (os_read (\<lambda>w. shutil_which env w ''AssemblePairs.py'')) (\<lambda>found.
     case nonempty found of
       Some f \<Rightarrow> ret (path_of env f)
     | None \<Rightarrow> raise (FileNotFoundError
         ''AssemblePairs.py not found. Activate presto_env or install presto.''))"

text \<open>\<open>Path(conda_prefix) / "Scripts" / "AssemblePairs.py"\<close>.\<close>

definition conda_candidate :: "'w env \<Rightarrow> string \<Rightarrow> path" where
  "conda_candidate env conda_prefix =
     path_join env (path_join env (path_of env conda_prefix) ''Scripts'') ''AssemblePairs.py''"

definition resolve_assemblepairs_path :: "'w env \<Rightarrow> string option \<Rightarrow> ('w, path) io" where
  "resolve_assemblepairs_path env explicit =
     (case nonempty explicit of
        Some e \<Rightarrow>
          bind (exists_p env (path_of env e)) (\<lambda>found.
          if found then ret (path_of env e)
          else raise (FileNotFoundError (''AssemblePairs.py not found at: '' @ e)))
      | None \<Rightarrow>
          (case nonempty (environ_get env ''CONDA_PREFIX'') of
             Some conda_prefix \<Rightarrow>
               bind (exists_p env (conda_candidate env conda_prefix)) (\<lambda>found.
               if found then ret (conda_candidate env conda_prefix)
               else which_assemblepairs env)
           | None \<Rightarrow> which_assemblepairs env))"

definition resolve_cutadapt_cmd :: "'w env \<Rightarrow> ('w, string list) io" where
  "resolve_cutadapt_cmd env =
     bind (os_read (\<lambda>w. shutil_which env w ''cutadapt'')) (\<lambda>found.
     case nonempty found of
       Some f \<Rightarrow> ret [f]
     | None \<Rightarrow> ret [sys_executable env, ''-m'', ''cutadapt''])"

definition run_command :: "'w env \<Rightarrow> string list \<Rightarrow> bool \<Rightarrow> path option \<Rightarrow> ('w, unit) io" where
  "run_command env cmd dry_run cwd =
     bind (print (''>> '' @ list2cmdline env cmd)) (\<lambda>_.
     if dry_run then ret ()
     else bind (emit (Subprocess cmd cwd)) (\<lambda>_. os_call (subprocess_run env cmd cwd)))"

text \<open>The file part of \<open>fastq_to_fasta\<close> around its loop.\<close>

definition fastq_to_fasta :: "'w env \<Rightarrow> path \<Rightarrow> path \<Rightarrow> ('w, unit) io" where
  "fastq_to_fasta env in_path out_path =
     bind (emit (OpenRead in_path)) (\<lambda>_.
     bind (os_read (\<lambda>w. open_read env (path_suffix env in_path = ''.gz'') w in_path)) (\<lambda>fin.
     bind (lift_result fin) (\<lambda>text.
     bind (emit (WriteText out_path (fst (fastq_to_fasta_loop text)))) (\<lambda>_.
     bind (os_call (open_write env out_path (fst (fastq_to_fasta_loop text)))) (\<lambda>_.
     case snd (fastq_to_fasta_loop text) of
       None \<Rightarrow> ret ()
     | Some e \<Rightarrow> raise e)))))"

text \<open>The argument lists that follow the resolved cutadapt command.\<close>

definition cutadapt_paired_args ::
  "path \<Rightarrow> path \<Rightarrow> path \<Rightarrow> path \<Rightarrow> adapters \<Rightarrow> int \<Rightarrow> string \<Rightarrow> int \<Rightarrow> int \<Rightarrow> string list" where
  "cutadapt_paired_args r1 r2 out_r1 out_r2 ads threads error_rate overlap min_length =
     [''-j'', str_int threads,
      ''-g'', ensure_prefix (r1_5p ads) ''^'',
      ''-G'', ensure_prefix (r2_5p ads) ''^'',
      ''-a'', ensure_suffix (r1_3p ads) ''$'',
      ''-A'', ensure_suffix (r2_3p ads) ''$'',
      ''-e'', error_rate,
      ''-O'', str_int overlap,
      ''--minimum-length'', str_int min_length,
      ''-o'', out_r1,
      ''-p'', out_r2,
      r1, r2]"

definition run_cutadapt_paired ::
  "'w env \<Rightarrow> path \<Rightarrow> path \<Rightarrow> path \<Rightarrow> path \<Rightarrow> adapters \<Rightarrow> int \<Rightarrow> string \<Rightarrow> int \<Rightarrow> int \<Rightarrow> bool
     \<Rightarrow> ('w, unit) io" where
  "run_cutadapt_paired env r1 r2 out_r1 out_r2 ads threads error_rate overlap min_length dry_run =
     bind (resolve_cutadapt_cmd env) (\<lambda>cmd.
     run_command env
       (cmd @ cutadapt_paired_args r1 r2 out_r1 out_r2 ads threads error_rate overlap min_length)
       dry_run None)"

definition cutadapt_single_args ::
  "path \<Rightarrow> path \<Rightarrow> adapters \<Rightarrow> int \<Rightarrow> string \<Rightarrow> int \<Rightarrow> int \<Rightarrow> string list" where
  "cutadapt_single_args in_fastq out_fastq ads threads error_rate overlap min_length =
     [''-j'', str_int threads,
      ''-g'', ensure_prefix (r1_5p ads) ''^'',
      ''-g'', ensure_prefix (r2_5p ads) ''^'',
      ''-a'', ensure_suffix (r1_3p ads) ''$'',
      ''-a'', ensure_suffix (r2_3p ads) ''$'',
      ''-e'', error_rate,
      ''-O'', str_int overlap,
      ''--minimum-length'', str_int min_length,
      ''-o'', out_fastq,
      in_fastq]"

definition run_cutadapt_single ::
  "'w env \<Rightarrow> path \<Rightarrow> path \<Rightarrow> adapters \<Rightarrow> int \<Rightarrow> string \<Rightarrow> int \<Rightarrow> int \<Rightarrow> bool \<Rightarrow> ('w, unit) io" where
  "run_cutadapt_single env in_fastq out_fastq ads threads error_rate overlap min_length dry_run =
     bind (resolve_cutadapt_cmd env) (\<lambda>cmd.
     run_command env
       (cmd @ cutadapt_single_args in_fastq out_fastq ads threads error_rate overlap min_length)
       dry_run None)"

text \<open>Lines 325 to 345: the command of \<open>run_assemblepairs\<close>.\<close>

definition assemble_cmd ::
  "string \<Rightarrow> path \<Rightarrow> path \<Rightarrow> path \<Rightarrow> string \<Rightarrow> string \<Rightarrow> string \<Rightarrow> path \<Rightarrow> bool \<Rightarrow> bool
     \<Rightarrow> string list" where
  "assemble_cmd executable assemble_path r1 r2 outname coord rc log_path failed swap_r1r2 =
     (let first = (if swap_r1r2 then r1 else r2);
          second = (if swap_r1r2 then r2 else r1)
      in [executable, assemble_path, ''align'',
          ''-1'', first,
          ''-2'', second,
          ''--coord'', coord,
          ''--rc'', rc,
          ''--outname'', outname,
          ''--log'', log_path]
         @ (if failed then [''--failed''] else []))"

definition run_assemblepairs ::
  "'w env \<Rightarrow> path \<Rightarrow> path \<Rightarrow> string \<Rightarrow> string \<Rightarrow> string \<Rightarrow> path \<Rightarrow> bool \<Rightarrow> bool \<Rightarrow> bool \<Rightarrow> path
     \<Rightarrow> ('w, unit) io" where
  "run_assemblepairs env r1 r2 outname coord rc log_path failed swap_r1r2 dry_run outdir =
     bind (resolve_assemblepairs_path env None) (\<lambda>assemble_path.
     run_command env
       (assemble_cmd (sys_executable env) assemble_path r1 r2 outname coord rc log_path
          failed swap_r1r2)
       dry_run (Some outdir))"

section \<open>The paths and names \<open>main\<close> derives\<close>

text \<open>
  Each definition is the right-hand side of the assignment of the same name in \<open>main\<close>
  (lines 351 to 394, 428 and 446 to 450); none of them touches the file system.
\<close>

definition base_outdir_of :: "'w env \<Rightarrow> args \<Rightarrow> path" where
  "base_outdir_of env args =
     (case nonempty (arg_outdir args) of
        Some d \<Rightarrow> path_of env d
      | None \<Rightarrow> path_parent env (path_of env (arg_r1 args)))"

definition prefix_base_of :: "'w env \<Rightarrow> args \<Rightarrow> string" where
  "prefix_base_of env args =
     (case nonempty (arg_prefix args) of
        Some p \<Rightarrow> p
      | None \<Rightarrow> infer_prefix (path_name env (path_of env (arg_r1 args))))"

definition run_id_of :: "'w env \<Rightarrow> args \<Rightarrow> string" where
  "run_id_of env args =
     (case nonempty (arg_run_id args) of
        Some r \<Rightarrow> strip r
      | None \<Rightarrow> now_strftime env)"

definition run_name_of :: "'w env \<Rightarrow> args \<Rightarrow> string" where
  "run_name_of env args = run_name (prefix_base_of env args) (arg_mode args) (run_id_of env args)"

definition run_dir_of :: "'w env \<Rightarrow> args \<Rightarrow> path" where
  "run_dir_of env args = path_join env (base_outdir_of env args) (run_name_of env args)"

definition assemble_outname_of :: "'w env \<Rightarrow> args \<Rightarrow> path" where
  "assemble_outname_of env args =
     (let assemble_prefix_arg =
            (case nonempty (arg_assemble_prefix args) of
               Some a \<Rightarrow> a
             | None \<Rightarrow> run_name_of env args @ ''_presto'');
          assemble_prefix_path = path_of env assemble_prefix_arg
      in if path_is_absolute env assemble_prefix_path then assemble_prefix_path
         else path_join env (run_dir_of env args) assemble_prefix_arg)"

definition log_path_of :: "'w env \<Rightarrow> args \<Rightarrow> path" where
  "log_path_of env args =
     (case nonempty (arg_log args) of
        Some l \<Rightarrow>
          if \<not> path_is_absolute env (path_of env l)
          then path_join env (run_dir_of env args) (path_of env l)
          else path_of env l
      | None \<Rightarrow> path_join env (run_dir_of env args) (run_name_of env args @ ''_AP_align.log''))"

definition adapters_of :: "args \<Rightarrow> adapters" where
  "adapters_of args =
     \<lparr> r1_5p = sanitize_adapter (arg_adapter_5p_r1 args),
       r2_5p = sanitize_adapter (arg_adapter_5p_r2 args),
       r1_3p = sanitize_adapter (arg_adapter_3p_r1 args),
       r2_3p = sanitize_adapter (arg_adapter_3p_r2 args) \<rparr>"

definition trimmed_r1_of :: "'w env \<Rightarrow> args \<Rightarrow> path" where
  "trimmed_r1_of env args =
     path_join env (run_dir_of env args) (run_name_of env args @ ''_trim_R1.fastq'')"

definition trimmed_r2_of :: "'w env \<Rightarrow> args \<Rightarrow> path" where
  "trimmed_r2_of env args =
     path_join env (run_dir_of env args) (run_name_of env args @ ''_trim_R2.fastq'')"

definition merge_then_trim_fastq_of :: "'w env \<Rightarrow> args \<Rightarrow> path" where
  "merge_then_trim_fastq_of env args =
     path_join env (run_dir_of env args) (run_name_of env args @ ''.fastq'')"

definition assemble_r1_of :: "'w env \<Rightarrow> args \<Rightarrow> path" where
  "assemble_r1_of env args =
     (if arg_mode args = ''trim-merge'' then trimmed_r1_of env args
      else path_of env (arg_r1 args))"

definition assemble_r2_of :: "'w env \<Rightarrow> args \<Rightarrow> path" where
  "assemble_r2_of env args =
     (if arg_mode args = ''trim-merge'' then trimmed_r2_of env args
      else path_of env (arg_r2 args))"

definition assemble_pass_of :: "'w env \<Rightarrow> args \<Rightarrow> path" where
  "assemble_pass_of env args =
     path_join env (path_parent env (assemble_outname_of env args))
       (path_name env (assemble_outname_of env args) @ ''_assemble-pass.fastq'')"

definition fasta_source_of :: "'w env \<Rightarrow> args \<Rightarrow> path" where
  "fasta_source_of env args =
     (if arg_mode args = ''merge-trim'' then merge_then_trim_fastq_of env args
      else assemble_pass_of env args)"

definition fasta_out_of :: "'w env \<Rightarrow> args \<Rightarrow> path" where
  "fasta_out_of env args = path_with_suffix env (fasta_source_of env args) ''.fasta''"

section \<open>\<open>main\<close>\<close>

text \<open>
  \<open>main\<close> after \<open>parse_args\<close>, cut at the stages of the pipeline. The value is the exit
  code the process ends with; an exception that leaves \<open>main\<close> is \<open>Inl\<close>.
\<close>

text \<open>Lines 360 to 376: the directories, with the check of the run identifier.\<close>

definition main_setup :: "'w env \<Rightarrow> args \<Rightarrow> ('w, unit) io" where
  "main_setup env args =
     bind (mkdir env (base_outdir_of env args)) (\<lambda>_.
     bind (lift_result (validate_run_id (run_id_of env args))) (\<lambda>_.
     bind (mkdir env (run_dir_of env args)) (\<lambda>_.
     mkdir env (path_parent env (assemble_outname_of env args)))))"

text \<open>Lines 396 to 413: the paired trim of mode \<open>trim-merge\<close>.\<close>

definition main_pre_trim :: "'w env \<Rightarrow> args \<Rightarrow> ('w, unit) io" where
  "main_pre_trim env args =
     (if arg_mode args = ''trim-merge''
      then run_cutadapt_paired env (path_of env (arg_r1 args)) (path_of env (arg_r2 args))
             (trimmed_r1_of env args) (trimmed_r2_of env args)
             (adapters_of args) (arg_threads args) (arg_cutadapt_error_rate args)
             (arg_cutadapt_overlap args) (arg_cutadapt_min_length args) (arg_dry_run args)
      else ret ())"

text \<open>Lines 415 to 426: the assembly.\<close>

definition main_assemble :: "'w env \<Rightarrow> args \<Rightarrow> ('w, unit) io" where
  "main_assemble env args =
     run_assemblepairs env (assemble_r1_of env args) (assemble_r2_of env args)
       (assemble_outname_of env args) (arg_coord args) (arg_rc args)
       (log_path_of env args) (arg_failed args) (arg_swap_r1r2 args) (arg_dry_run args)
       (run_dir_of env args)"

text \<open>Lines 450 to 461: the conversion, the report and exit code 0.\<close>

definition convert_and_report :: "'w env \<Rightarrow> args \<Rightarrow> ('w, int) io" where
  "convert_and_report env args =
     bind (if arg_dry_run args
           then print (''>> fastq_to_fasta '' @ fasta_source_of env args @ '' -> ''
                         @ fasta_out_of env args)
           else fastq_to_fasta env (fasta_source_of env args) (fasta_out_of env args)) (\<lambda>_.
     bind (print ''Done.'') (\<lambda>_.
     bind (print (''output folder: '' @ run_dir_of env args)) (\<lambda>_.
     bind (print (''merged fastq: '' @ fasta_source_of env args)) (\<lambda>_.
     bind (print (''fasta: '' @ fasta_out_of env args)) (\<lambda>_.
     bind (print (''log: '' @ log_path_of env args)) (\<lambda>_.
     ret 0))))))"

text \<open>Lines 433 to 446: the single-stream trim of mode \<open>merge-trim\<close> and its check.\<close>

definition main_post_trim :: "'w env \<Rightarrow> args \<Rightarrow> ('w, int) io" where
  "main_post_trim env args =
     bind (run_cutadapt_single env (assemble_pass_of env args)
             (merge_then_trim_fastq_of env args) (adapters_of args) (arg_threads args)
             (arg_cutadapt_error_rate args) (arg_cutadapt_overlap args)
             (arg_cutadapt_min_length args) (arg_dry_run args)) (\<lambda>_.
     bind (and_then (\<not> arg_dry_run args)
             (bind (exists_p env (merge_then_trim_fastq_of env args))
                (\<lambda>found. ret (\<not> found)))) (\<lambda>missing.
     if missing
     then bind (print_err (''merge-then-trim output not found: ''
                             @ merge_then_trim_fastq_of env args)) (\<lambda>_. ret 4)
     else convert_and_report env args))"

text \<open>Lines 428 to 461: what follows the assembly.\<close>

definition main_after_assembly :: "'w env \<Rightarrow> args \<Rightarrow> ('w, int) io" where
  "main_after_assembly env args =
     bind (and_then (\<not> arg_dry_run args)
             (bind (exists_p env (assemble_pass_of env args)) (\<lambda>found. ret (\<not> found))))
       (\<lambda>missing.
     if missing
     then bind (print_err (''AssemblePairs output not found: '' @ assemble_pass_of env args))
            (\<lambda>_. ret 3)
     else if arg_mode args = ''merge-trim'' then main_post_trim env args
     else convert_and_report env args)"

definition main :: "'w env \<Rightarrow> args \<Rightarrow> ('w, int) io" where
  "main env args =
     (let r1 = path_of env (arg_r1 args); r2 = path_of env (arg_r2 args) in
      bind (exists_p env r1) (\<lambda>r1_exists.
      if \<not> r1_exists then bind (print_err (''R1 not found: '' @ r1)) (\<lambda>_. ret 2)
      else
      bind (exists_p env r2) (\<lambda>r2_exists.
      if \<not> r2_exists then bind (print_err (''R2 not found: '' @ r2)) (\<lambda>_. ret 2)
      else
      bind (main_setup env args) (\<lambda>_.
      bind (main_pre_trim env args) (\<lambda>_.
      bind (main_assemble env args) (\<lambda>_.
      main_after_assembly env args))))))"

text \<open>The outcome of a run from an empty trace: result, trace and final file system.\<close>

definition exit_of :: "(exn + int) \<times> 'w state \<Rightarrow> exn + int" where
  "exit_of r = fst r"

definition trace_of :: "(exn + int) \<times> 'w state \<Rightarrow> event list" where
  "trace_of r = fst (snd r)"

definition world_of :: "(exn + int) \<times> 'w state \<Rightarrow> 'w" where
  "world_of r = snd (snd r)"

definition run_main :: "'w env \<Rightarrow> args \<Rightarrow> 'w \<Rightarrow> (exn + int) \<times> 'w state" where
  "run_main env args w = main env args ([], w)"

section \<open>A concrete environment\<close>

text \<open>
  A small POSIX-like environment on which the model runs: the file system is a list
  of paths with their text (a directory has the empty text), paths are relative and
  already normal, and the two external tools are replaced by a stand-in that writes
  the file the real tool would be asked to write.
\<close>

type_synonym files = "(path \<times> string) list"

definition posix_name :: "path \<Rightarrow> string" where
  "posix_name p = rev (takeWhile (\<lambda>c. c \<noteq> CHR ''/'') (rev p))"

definition posix_parent :: "path \<Rightarrow> path" where
  "posix_parent p =
     (let d = rev (drop 1 (dropWhile (\<lambda>c. c \<noteq> CHR ''/'') (rev p)))
      in if d = [] then (if prefix ''/'' p then ''/'' else ''.'') else d)"

definition posix_join :: "path \<Rightarrow> string \<Rightarrow> path" where
  "posix_join a b = (if prefix ''/'' b then b else a @ ''/'' @ b)"

definition posix_suffix :: "path \<Rightarrow> string" where
  "posix_suffix p =
     (let n = posix_name p; ext = rev (takeWhile (\<lambda>c. c \<noteq> CHR ''.'') (rev n))
      in if CHR ''.'' \<in> set n \<and> ext \<noteq> [] \<and> length ext + 1 < length n
         then CHR ''.'' # ext else [])"

definition posix_with_suffix :: "path \<Rightarrow> string \<Rightarrow> path" where
  "posix_with_suffix p s = take (length p - length (posix_suffix p)) p @ s"

fun arg_after :: "string \<Rightarrow> string list \<Rightarrow> string option" where
  "arg_after flag [] = None"
| "arg_after flag [a] = None"
| "arg_after flag (a # b # rest) = (if a = flag then Some b else arg_after flag (b # rest))"

definition demo_reads :: string where
  "demo_reads = ''@read1 extra\<newline>ACGT\<newline>+\<newline>IIII\<newline>''"

definition demo_tool :: "string list \<Rightarrow> path option \<Rightarrow> files \<Rightarrow> exn + files" where
  "demo_tool cmd cwd w =
     (case arg_after ''--outname'' cmd of
        Some out \<Rightarrow> Inr ((out @ ''_assemble-pass.fastq'', demo_reads) # w)
      | None \<Rightarrow>
          (case arg_after ''-o'' cmd of
             Some out \<Rightarrow> Inr ((out, demo_reads) # w)
           | None \<Rightarrow> Inl CalledProcessError))"

fun join_spaces :: "string list \<Rightarrow> string" where
  "join_spaces [] = []"
| "join_spaces [a] = a"
| "join_spaces (a # b # rest) = a @ '' '' @ join_spaces (b # rest)"

definition demo_env :: "files env" where
  "demo_env =
     \<lparr> path_of = (\<lambda>s. s),
       path_parent = posix_parent,
       path_name = posix_name,
       path_suffix = posix_suffix,
       path_join = posix_join,
       path_is_absolute = prefix ''/'',
       path_with_suffix = posix_with_suffix,
       path_exists = (\<lambda>w p. p \<in> set (map fst w)),
       os_mkdir = (\<lambda>p w. Inr (if p \<in> set (map fst w) then w else (p, []) # w)),
       subprocess_run = demo_tool,
       shutil_which = (\<lambda>w name. Some (''/usr/bin/'' @ name)),
       environ_get = (\<lambda>name. None),
       sys_executable = ''python3'',
       now_strftime = ''20240101_120000'',
       list2cmdline = join_spaces,
       open_read = (\<lambda>gz w p. case map_of w p of
                                 Some t \<Rightarrow> Inr t
                               | None \<Rightarrow> Inl (FileNotFoundError p)),
       open_write = (\<lambda>p t w. Inr ((p, t) # w)) \<rparr>"


definition demo_args :: args where
  "demo_args =
     \<lparr> arg_mode = ''merge-only'',
       arg_r1 = ''in/S1_R1.fastq'',
       arg_r2 = ''in/S1_R2.fastq'',
       arg_outdir = Some ''out'',
       arg_prefix = None,
       arg_assemble_prefix = None,
       arg_run_id = Some ''run1'',
       arg_log = None,
       arg_threads = 8,
       arg_cutadapt_error_rate = ''0.15'',
       arg_cutadapt_overlap = 10,
       arg_cutadapt_min_length = 50,
       arg_adapter_5p_r1 = ''TGAGTTCCACGACACCGTCA'',
       arg_adapter_5p_r2 = ''CTAATACGACTCCGAATTCC'',
       arg_adapter_3p_r1 = ''GGAATTCGGAGTCGTATTAG'',
       arg_adapter_3p_r2 = ''TGACGGTGTCGTGGAACTCA'',
       arg_coord = ''illumina'',
       arg_rc = ''tail'',
       arg_failed = False,
       arg_swap_r1r2 = False,
       arg_dry_run = False \<rparr>"

definition demo_files :: files where
  "demo_files = [(''in'', []), (''in/S1_R1.fastq'', demo_reads), (''in/S1_R2.fastq'', demo_reads)]"

section \<open>Vocabulary of the proofs\<close>

text \<open>
  Names for the events and commands of a run, used to state what \<open>main\<close> does.
\<close>

text \<open>The line \<open>run_command\<close> prints for a command.\<close>

definition echo :: "'w env \<Rightarrow> string list \<Rightarrow> event" where
  "echo env cmd = Stdout (''>> '' @ list2cmdline env cmd)"

text \<open>The cutadapt command found in a file system, and the three full commands.\<close>

definition cutadapt_cmd_at :: "'w env \<Rightarrow> 'w \<Rightarrow> string list" where
  "cutadapt_cmd_at env w =
     (case nonempty (shutil_which env w ''cutadapt'') of
        Some f \<Rightarrow> [f]
      | None \<Rightarrow> [sys_executable env, ''-m'', ''cutadapt''])"

definition paired_cmd :: "'w env \<Rightarrow> args \<Rightarrow> string list \<Rightarrow> string list" where
  "paired_cmd env args cutadapt =
     cutadapt @ cutadapt_paired_args (path_of env (arg_r1 args)) (path_of env (arg_r2 args))
       (trimmed_r1_of env args) (trimmed_r2_of env args) (adapters_of args) (arg_threads args)
       (arg_cutadapt_error_rate args) (arg_cutadapt_overlap args) (arg_cutadapt_min_length args)"

definition single_cmd :: "'w env \<Rightarrow> args \<Rightarrow> string list \<Rightarrow> string list" where
  "single_cmd env args cutadapt =
     cutadapt @ cutadapt_single_args (assemble_pass_of env args)
       (merge_then_trim_fastq_of env args) (adapters_of args) (arg_threads args)
       (arg_cutadapt_error_rate args) (arg_cutadapt_overlap args) (arg_cutadapt_min_length args)"

definition assembly_cmd :: "'w env \<Rightarrow> args \<Rightarrow> path \<Rightarrow> string list" where
  "assembly_cmd env args assemble_path =
     assemble_cmd (sys_executable env) assemble_path (assemble_r1_of env args)
       (assemble_r2_of env args) (assemble_outname_of env args) (arg_coord args) (arg_rc args)
       (log_path_of env args) (arg_failed args) (arg_swap_r1r2 args)"

text \<open>
  What \<open>resolve_assemblepairs_path\<close> without an explicit path finds in a file system,
  and the existence check it makes on the way.
\<close>

definition which_found :: "'w env \<Rightarrow> 'w \<Rightarrow> exn + path" where
  "which_found env w =
     (case nonempty (shutil_which env w ''AssemblePairs.py'') of
        Some f \<Rightarrow> Inr (path_of env f)
      | None \<Rightarrow> Inl (FileNotFoundError
          ''AssemblePairs.py not found. Activate presto_env or install presto.''))"

definition assemblepairs_found :: "'w env \<Rightarrow> 'w \<Rightarrow> exn + path" where
  "assemblepairs_found env w =
     (case nonempty (environ_get env ''CONDA_PREFIX'') of
        Some cp \<Rightarrow>
          if path_exists env w (conda_candidate env cp) then Inr (conda_candidate env cp)
          else which_found env w
      | None \<Rightarrow> which_found env w)"

definition assemblepairs_checks :: "'w env \<Rightarrow> 'w \<Rightarrow> event list" where
  "assemblepairs_checks env w =
     (case nonempty (environ_get env ''CONDA_PREFIX'') of
        Some cp \<Rightarrow> [Exists (conda_candidate env cp) (path_exists env w (conda_candidate env cp))]
      | None \<Rightarrow> [])"

text \<open>Events that \<open>main\<close> builds from its paths.\<close>

definition r1_missing_line :: "'w env \<Rightarrow> args \<Rightarrow> event" where
  "r1_missing_line env args = Stderr (''R1 not found: '' @ path_of env (arg_r1 args))"

definition r2_missing_line :: "'w env \<Rightarrow> args \<Rightarrow> event" where
  "r2_missing_line env args = Stderr (''R2 not found: '' @ path_of env (arg_r2 args))"

definition pass_missing :: "'w env \<Rightarrow> args \<Rightarrow> event" where
  "pass_missing env args =
     Stderr (''AssemblePairs output not found: '' @ assemble_pass_of env args)"

definition trim_missing :: "'w env \<Rightarrow> args \<Rightarrow> event" where
  "trim_missing env args =
     Stderr (''merge-then-trim output not found: '' @ merge_then_trim_fastq_of env args)"

definition dry_convert_line :: "'w env \<Rightarrow> args \<Rightarrow> event" where
  "dry_convert_line env args =
     Stdout (''>> fastq_to_fasta '' @ fasta_source_of env args @ '' -> '' @ fasta_out_of env args)"

text \<open>The check of the assembly output, when it is made and finds the file.\<close>

definition pass_seen :: "'w env \<Rightarrow> args \<Rightarrow> event list" where
  "pass_seen env args =
     (if arg_dry_run args then [] else [Exists (assemble_pass_of env args) True])"

text \<open>The five lines of the report.\<close>

definition report :: "'w env \<Rightarrow> args \<Rightarrow> event list" where
  "report env args =
     [Stdout ''Done.'',
      Stdout (''output folder: '' @ run_dir_of env args),
      Stdout (''merged fastq: '' @ fasta_source_of env args),
      Stdout (''fasta: '' @ fasta_out_of env args),
      Stdout (''log: '' @ log_path_of env args)]"

text \<open>The stages after the directories are there, as one computation.\<close>

definition pipeline :: "'w env \<Rightarrow> args \<Rightarrow> ('w, int) io" where
  "pipeline env args =
     bind (main_pre_trim env args) (\<lambda>_.
     bind (main_assemble env args) (\<lambda>_.
     main_after_assembly env args))"

subsection \<open>The runs of \<open>main\<close>\<close>

text \<open>
  Every run of \<open>main\<close> is one of the runs described here, stage by stage from the end
  of the pipeline to its start. Each relation gives, for the trace \<open>pre\<close> a stage
  starts with, the result and the whole trace of a run that goes on from there.
\<close>

definition shown :: "'w env \<Rightarrow> bool \<Rightarrow> string list \<Rightarrow> path option \<Rightarrow> event list" where
  "shown env dry_run cmd cwd = echo env cmd # (if dry_run then [] else [Subprocess cmd cwd])"

definition checked :: "'w env \<Rightarrow> args \<Rightarrow> event list" where
  "checked env args =
     [Exists (path_of env (arg_r1 args)) True, Exists (path_of env (arg_r2 args)) True]"

definition tool_checks :: "'w env \<Rightarrow> event list \<Rightarrow> bool" where
  "tool_checks env evs \<longleftrightarrow> evs = [] \<or> (\<exists>cp b. evs = [Exists (conda_candidate env cp) b])"

inductive finish_run :: "'w env \<Rightarrow> args \<Rightarrow> event list \<Rightarrow> exn + int \<Rightarrow> event list \<Rightarrow> bool"
  for env :: "'w env" and args :: args and pre :: "event list" where
  dry_run_done:
    "arg_dry_run args \<Longrightarrow>
     finish_run env args pre (Inr 0) (pre @ dry_convert_line env args # report env args)"
| open_failed:
    "\<not> arg_dry_run args \<Longrightarrow>
     finish_run env args pre (Inl e) (pre @ [OpenRead (fasta_source_of env args)])"
| convert_failed:
    "\<not> arg_dry_run args \<Longrightarrow>
     finish_run env args pre (Inl e)
       (pre @ [OpenRead (fasta_source_of env args), WriteText (fasta_out_of env args) text])"
| converted:
    "\<not> arg_dry_run args \<Longrightarrow>
     finish_run env args pre (Inr 0)
       (pre @ OpenRead (fasta_source_of env args) # WriteText (fasta_out_of env args) text
          # report env args)"

inductive post_trim_run :: "'w env \<Rightarrow> args \<Rightarrow> event list \<Rightarrow> exn + int \<Rightarrow> event list \<Rightarrow> bool"
  for env :: "'w env" and args :: args and pre :: "event list" where
  single_failed:
    "\<not> arg_dry_run args \<Longrightarrow>
     post_trim_run env args pre (Inl e)
       (pre @ [echo env (single_cmd env args c), Subprocess (single_cmd env args c) None])"
| trimmed_missing:
    "\<not> arg_dry_run args \<Longrightarrow>
     post_trim_run env args pre (Inr 4)
       (pre @ [echo env (single_cmd env args c), Subprocess (single_cmd env args c) None,
               Exists (merge_then_trim_fastq_of env args) False, trim_missing env args])"
| trimmed:
    "finish_run env args
       (pre @ shown env (arg_dry_run args) (single_cmd env args c) None
          @ (if arg_dry_run args then [] else [Exists (merge_then_trim_fastq_of env args) True]))
       r tr \<Longrightarrow>
     post_trim_run env args pre r tr"

inductive after_assembly_run ::
  "'w env \<Rightarrow> args \<Rightarrow> event list \<Rightarrow> exn + int \<Rightarrow> event list \<Rightarrow> bool"
  for env :: "'w env" and args :: args and pre :: "event list" where
  pass_not_found:
    "\<not> arg_dry_run args \<Longrightarrow>
     after_assembly_run env args pre (Inr 3)
       (pre @ [Exists (assemble_pass_of env args) False, pass_missing env args])"
| to_post_trim:
    "arg_mode args = ''merge-trim'' \<Longrightarrow>
     post_trim_run env args (pre @ pass_seen env args) r tr \<Longrightarrow>
     after_assembly_run env args pre r tr"
| to_finish:
    "arg_mode args \<noteq> ''merge-trim'' \<Longrightarrow>
     finish_run env args (pre @ pass_seen env args) r tr \<Longrightarrow>
     after_assembly_run env args pre r tr"

inductive assemble_run :: "'w env \<Rightarrow> args \<Rightarrow> event list \<Rightarrow> exn + int \<Rightarrow> event list \<Rightarrow> bool"
  for env :: "'w env" and args :: args and pre :: "event list" where
  tool_not_found:
    "tool_checks env evs \<Longrightarrow>
     assemble_run env args pre
       (Inl (FileNotFoundError
          ''AssemblePairs.py not found. Activate presto_env or install presto.''))
       (pre @ evs)"
| assembly_failed:
    "\<not> arg_dry_run args \<Longrightarrow> tool_checks env evs \<Longrightarrow>
     assemble_run env args pre (Inl e)
       (pre @ evs @ [echo env (assembly_cmd env args ap),
                     Subprocess (assembly_cmd env args ap) (Some (run_dir_of env args))])"
| assembled:
    "tool_checks env evs \<Longrightarrow>
     after_assembly_run env args
       (pre @ evs @ shown env (arg_dry_run args) (assembly_cmd env args ap)
                      (Some (run_dir_of env args))) r tr \<Longrightarrow>
     assemble_run env args pre r tr"

inductive pre_trim_run :: "'w env \<Rightarrow> args \<Rightarrow> event list \<Rightarrow> exn + int \<Rightarrow> event list \<Rightarrow> bool"
  for env :: "'w env" and args :: args and pre :: "event list" where
  paired_failed:
    "arg_mode args = ''trim-merge'' \<Longrightarrow> \<not> arg_dry_run args \<Longrightarrow>
     pre_trim_run env args pre (Inl e)
       (pre @ [echo env (paired_cmd env args c), Subprocess (paired_cmd env args c) None])"
| pre_trimmed:
    "arg_mode args = ''trim-merge'' \<Longrightarrow>
     assemble_run env args (pre @ shown env (arg_dry_run args) (paired_cmd env args c) None)
       r tr \<Longrightarrow>
     pre_trim_run env args pre r tr"
| no_pre_trim:
    "arg_mode args \<noteq> ''trim-merge'' \<Longrightarrow> assemble_run env args pre r tr \<Longrightarrow>
     pre_trim_run env args pre r tr"

inductive main_run :: "'w env \<Rightarrow> args \<Rightarrow> 'w \<Rightarrow> exn + int \<Rightarrow> event list \<Rightarrow> bool"
  for env :: "'w env" and args :: args and w :: 'w where
  r1_missing:
    "\<not> path_exists env w (path_of env (arg_r1 args)) \<Longrightarrow>
     main_run env args w (Inr 2)
       [Exists (path_of env (arg_r1 args)) False, r1_missing_line env args]"
| r2_missing:
    "path_exists env w (path_of env (arg_r1 args)) \<Longrightarrow>
     \<not> path_exists env w (path_of env (arg_r2 args)) \<Longrightarrow>
     main_run env args w (Inr 2)
       [Exists (path_of env (arg_r1 args)) True, Exists (path_of env (arg_r2 args)) False,
        r2_missing_line env args]"
| mkdir_base_failed:
    "path_exists env w (path_of env (arg_r1 args)) \<Longrightarrow>
     path_exists env w (path_of env (arg_r2 args)) \<Longrightarrow>
     os_mkdir env (base_outdir_of env args) w = Inl e \<Longrightarrow>
     main_run env args w (Inl e) (checked env args @ [Mkdir (base_outdir_of env args)])"
| invalid_run_id:
    "path_exists env w (path_of env (arg_r1 args)) \<Longrightarrow>
     path_exists env w (path_of env (arg_r2 args)) \<Longrightarrow>
     os_mkdir env (base_outdir_of env args) w = Inr w1 \<Longrightarrow>
     validate_run_id (run_id_of env args) = Inl e \<Longrightarrow>
     main_run env args w (Inl e) (checked env args @ [Mkdir (base_outdir_of env args)])"
| mkdir_run_failed:
    "path_exists env w (path_of env (arg_r1 args)) \<Longrightarrow>
     path_exists env w (path_of env (arg_r2 args)) \<Longrightarrow>
     validate_run_id (run_id_of env args) = Inr () \<Longrightarrow>
     os_mkdir env (run_dir_of env args) w1 = Inl e \<Longrightarrow>
     main_run env args w (Inl e)
       (checked env args @ [Mkdir (base_outdir_of env args), Mkdir (run_dir_of env args)])"
| mkdir_parent_failed:
    "path_exists env w (path_of env (arg_r1 args)) \<Longrightarrow>
     path_exists env w (path_of env (arg_r2 args)) \<Longrightarrow>
     validate_run_id (run_id_of env args) = Inr () \<Longrightarrow>
     os_mkdir env (path_parent env (assemble_outname_of env args)) w2 = Inl e \<Longrightarrow>
     main_run env args w (Inl e)
       (checked env args @ [Mkdir (base_outdir_of env args), Mkdir (run_dir_of env args),
          Mkdir (path_parent env (assemble_outname_of env args))])"
| set_up:
    "path_exists env w (path_of env (arg_r1 args)) \<Longrightarrow>
     path_exists env w (path_of env (arg_r2 args)) \<Longrightarrow>
     validate_run_id (run_id_of env args) = Inr () \<Longrightarrow>
     pre_trim_run env args
       (checked env args @ [Mkdir (base_outdir_of env args), Mkdir (run_dir_of env args),
          Mkdir (path_parent env (assemble_outname_of env args))]) r tr \<Longrightarrow>
     main_run env args w r tr"

subsection \<open>The conversion as the specification words it\<close>


subsection \<open>Kinds of events\<close>

fun is_subprocess :: "event \<Rightarrow> bool" where
  "is_subprocess (Subprocess cmd cwd) = True"
| "is_subprocess ev = False"

fun is_mkdir :: "event \<Rightarrow> bool" where
  "is_mkdir (Mkdir p) = True"
| "is_mkdir ev = False"



subsection \<open>Further concrete runs\<close>



definition merge_trim_args :: args where
  "merge_trim_args = demo_args \<lparr> arg_mode := ''merge-trim'' \<rparr>"



definition bad_run_id_args :: args where
  "bad_run_id_args = demo_args \<lparr> arg_run_id := Some ''a:b'' \<rparr>"

section \<open>Facts about the text primitives\<close>













lemma strip_first_suffix_fastq:
  assumes "sfx \<in> set fastq_suffixes"
  shows "strip_first_suffix fastq_suffixes (stem @ sfx) = stem"
proof -
  from assms consider "sfx = ''.fastq.gz''" | "sfx = ''.fq.gz''" | "sfx = ''.fastq''" | "sfx = ''.fq''"
    by (auto simp: fastq_suffixes_def)
  then show ?thesis
    by cases (simp_all add: fastq_suffixes_def endswith_def drop_tail_def suffix_to_prefix)
qed

lemma strip_first_marker_r1:
  assumes "m \<in> set r1_markers"
  shows "strip_first_marker r1_markers (base @ m) = Some base"
proof -
  from assms consider "m = ''_R1_001''" | "m = ''_R1''" | "m = ''-R1''" | "m = ''.R1''"
    by (auto simp: r1_markers_def)
  then show ?thesis
    by cases (simp_all add: r1_markers_def endswith_def drop_tail_def suffix_to_prefix)
qed

lemma strip_first_marker_None:
  "strip_first_marker ms name = None \<longleftrightarrow> (\<forall>m \<in> set ms. \<not> endswith name m)"
  by (induction ms) auto

lemma before_first_split:
  assumes "sep \<noteq> []"
  shows "sublist sep s \<Longrightarrow>
    (\<exists>rest. s = before_first sep s @ sep @ rest)
    \<and> \<not> sublist sep (before_first sep s @ butlast sep)"
proof (induction s)
  case Nil
  with assms show ?case by simp
next
  case (Cons c cs)
  show ?case
  proof (cases "prefix sep (c # cs)")
    case True
    then obtain rest where "c # cs = sep @ rest" by (auto simp: prefix_def)
    moreover have "\<not> sublist sep (butlast sep)"
    proof
      assume "sublist sep (butlast sep)"
      then have "length sep \<le> length (butlast sep)" by (rule sublist_length_le)
      with assms show False by (simp add: less_Suc_eq_le [symmetric] Suc_le_eq)
    qed
    moreover from True have "before_first sep (c # cs) = []" by simp
    ultimately show ?thesis by (metis append_Nil)
  next
    case False
    with Cons.prems have "sublist sep cs" by (simp add: sublist_Cons_right)
    with Cons.IH obtain rest where
      rest: "cs = before_first sep cs @ sep @ rest"
      and nsub: "\<not> sublist sep (before_first sep cs @ butlast sep)" by auto
    have "\<not> prefix sep (c # before_first sep cs @ butlast sep)"
    proof
      assume p: "prefix sep (c # before_first sep cs @ butlast sep)"
      have "prefix (c # before_first sep cs @ butlast sep) (c # before_first sep cs @ sep @ rest)"
        using assms by (simp add: prefix_def) (metis append_butlast_last_id append_assoc)
      with p have "prefix sep (c # before_first sep cs @ sep @ rest)"
        by (rule prefix_order.trans)
      with rest False show False by simp
    qed
    with nsub have "\<not> sublist sep (c # before_first sep cs @ butlast sep)"
      by (simp add: sublist_Cons_right)
    with rest False show ?thesis by auto
  qed
qed

section \<open>Sample-prefix inference\<close>

text \<open>
  Claim C5. A file name made of a stem, a recognised R1 marker and a recognised FASTQ
  suffix gives exactly the stem. When the name without its suffix ends with no marker
  but contains \<open>_R1_\<close>, the result is the text before the first \<open>_R1_\<close> (it is followed
  by \<open>_R1_\<close> in the name, and \<open>_R1_\<close> does not begin any earlier); when it contains no
  \<open>_R1_\<close> either, the result is the name without its suffix.
\<close>

theorem infer_prefix_cases:
  assumes "sfx \<in> set fastq_suffixes"
  shows "(m \<in> set r1_markers \<longrightarrow> infer_prefix (base @ m @ sfx) = base)
    \<and> ((\<forall>m \<in> set r1_markers. \<not> endswith stem m) \<and> sublist ''_R1_'' stem \<longrightarrow>
         (\<exists>rest. stem = infer_prefix (stem @ sfx) @ ''_R1_'' @ rest)
         \<and> \<not> sublist ''_R1_'' (infer_prefix (stem @ sfx) @ ''_R1''))
    \<and> ((\<forall>m \<in> set r1_markers. \<not> endswith stem m) \<and> \<not> sublist ''_R1_'' stem \<longrightarrow>
         infer_prefix (stem @ sfx) = stem)"
proof (intro conjI impI)
  assume "m \<in> set r1_markers"
  then have "strip_first_marker r1_markers (base @ m) = Some base"
    by (rule strip_first_marker_r1)
  moreover have "strip_first_suffix fastq_suffixes ((base @ m) @ sfx) = base @ m"
    using assms by (rule strip_first_suffix_fastq)
  ultimately show "infer_prefix (base @ m @ sfx) = base"
    by (simp add: infer_prefix_def)
next
  assume a: "(\<forall>m \<in> set r1_markers. \<not> endswith stem m) \<and> sublist ''_R1_'' stem"
  then have none: "strip_first_marker r1_markers stem = None"
    by (simp add: strip_first_marker_None)
  have stem: "strip_first_suffix fastq_suffixes (stem @ sfx) = stem"
    using assms by (rule strip_first_suffix_fastq)
  from none stem a have eq: "infer_prefix (stem @ sfx) = before_first ''_R1_'' stem"
    by (simp add: infer_prefix_def)
  have "(\<exists>rest. stem = before_first ''_R1_'' stem @ ''_R1_'' @ rest)
    \<and> \<not> sublist ''_R1_'' (before_first ''_R1_'' stem @ butlast ''_R1_'')"
    using a by (intro before_first_split) auto
  with eq show "\<exists>rest. stem = infer_prefix (stem @ sfx) @ ''_R1_'' @ rest"
    and "\<not> sublist ''_R1_'' (infer_prefix (stem @ sfx) @ ''_R1'')"
    by simp_all
next
  assume a: "(\<forall>m \<in> set r1_markers. \<not> endswith stem m) \<and> \<not> sublist ''_R1_'' stem"
  then have none: "strip_first_marker r1_markers stem = None"
    by (simp add: strip_first_marker_None)
  have stem: "strip_first_suffix fastq_suffixes (stem @ sfx) = stem"
    using assms by (rule strip_first_suffix_fastq)
  from none stem a show "infer_prefix (stem @ sfx) = stem"
    by (simp add: infer_prefix_def)
qed

theorem infer_prefix_cases_witness:
  "''.fastq.gz'' \<in> set fastq_suffixes \<and> ''_R1_001'' \<in> set r1_markers
   \<and> infer_prefix (''S1_L001'' @ ''_R1_001'' @ ''.fastq.gz'') = ''S1_L001''
   \<and> \<not> (\<exists>m \<in> set r1_markers. endswith ''S1_R1_x'' m) \<and> sublist ''_R1_'' ''S1_R1_x''
   \<and> infer_prefix (''S1_R1_x'' @ ''.fastq.gz'') = ''S1''
   \<and> \<not> (\<exists>m \<in> set r1_markers. endswith ''S1_x'' m) \<and> \<not> sublist ''_R1_'' ''S1_x''
   \<and> infer_prefix (''S1_x'' @ ''.fastq.gz'') = ''S1_x''"
proof -
  have s: "''.fastq.gz'' \<in> set fastq_suffixes" by (simp add: fastq_suffixes_def)
  have m: "''_R1_001'' \<in> set r1_markers" by (simp add: r1_markers_def)
  have a: "(\<forall>m \<in> set r1_markers. \<not> endswith ''S1_R1_x'' m) \<and> sublist ''_R1_'' ''S1_R1_x''"
    by (simp add: r1_markers_def endswith_def suffix_to_prefix sublist_Cons_right)
  have b: "(\<forall>m \<in> set r1_markers. \<not> endswith ''S1_x'' m) \<and> \<not> sublist ''_R1_'' ''S1_x''"
    by (simp add: r1_markers_def endswith_def suffix_to_prefix sublist_Cons_right)
  have c: "infer_prefix (''S1_R1_x'' @ ''.fastq.gz'') = ''S1''"
    by (simp add: infer_prefix_def fastq_suffixes_def r1_markers_def endswith_def drop_tail_def
        suffix_to_prefix sublist_Cons_right)
  from infer_prefix_cases [OF s, of "''_R1_001''" "''S1_L001''" "''S1_R1_x''"]
    infer_prefix_cases [OF s, of "''_R1_001''" "''S1_L001''" "''S1_x''"] s m a b c
  show ?thesis by simp
qed

section \<open>Adapter handling\<close>


section \<open>Run directory name\<close>

text \<open>
  Claim C9. The run directory name is the prefix, the label of the mode and the run
  identifier joined by underscores; the three modes have the labels \<open>withoutTrim\<close>,
  \<open>trimThenMerge\<close> and \<open>mergeThenTrim\<close>, none of which is the mode string itself. The
  name is a function of these three values alone, and \<open>main\<close> names the run directory
  by it.
\<close>

theorem run_name_labels:
  "run_name p ''merge-only'' r = p @ ''_withoutTrim_'' @ r
   \<and> run_name p ''trim-merge'' r = p @ ''_trimThenMerge_'' @ r
   \<and> run_name p ''merge-trim'' r = p @ ''_mergeThenTrim_'' @ r
   \<and> run_name p mode r = p @ ''_'' @ mode_label mode @ ''_'' @ r
   \<and> mode_label ''merge-only'' \<noteq> ''merge-only''
   \<and> mode_label ''trim-merge'' \<noteq> ''trim-merge''
   \<and> mode_label ''merge-trim'' \<noteq> ''merge-trim''
   \<and> run_dir_of env args =
       path_join env (base_outdir_of env args)
         (run_name (prefix_base_of env args) (arg_mode args) (run_id_of env args))"
  by (simp add: run_name_def mode_label_def MODE_LABELS_def run_dir_of_def run_name_of_def)

section \<open>FASTQ to FASTA conversion\<close>







lemmas eval_text =
  fastq_to_fasta_loop.simps [of "_ # _"] fastq_to_fasta_loop.simps [of "[]"]
  split_ws.simps header_fields_def strip_def lstrip_def rstrip_def
  isspace_def whitespace_def startswith_def Let_def


lemma loop_read1_truncated:
  "fastq_to_fasta_loop ''@read1 extra\<newline>ACGT\<newline>'' =
     ([], Some (ValueError ''Truncated FASTQ record detected.''))"
  by (simp add: eval_text)





text \<open>
  Claim C10. A complete record of four lines whose header is \<open>@\<close> alone, or \<open>@\<close> and
  whitespace only, ends the conversion with the out-of-range access of
  \<open>header.split()[0]\<close>: the header has no word, nothing is written for the record, and
  the exception is neither success nor the truncated-record error.
\<close>

theorem fastq_empty_header_index_error:
  "header_fields ''@'' = []
   \<and> fastq_to_fasta_loop ''@\<newline>ACGT\<newline>+\<newline>IIII\<newline>'' = ([], Some IndexError)
   \<and> fastq_to_fasta_loop (''@ '' @ [CHR 0x09] @ ''\<newline>ACGT\<newline>+\<newline>IIII\<newline>'')
       = ([], Some IndexError)"
  by (simp add: eval_text)

section \<open>Running the stages\<close>

text \<open>What each primitive does to a state \<open>(trace, file system)\<close>.\<close>

lemma ret_run: "ret x s = (Inr x, s)"
  by (simp add: ret_def)

lemma raise_run: "raise e s = (Inl e, s)"
  by (simp add: raise_def)

lemma bind_run:
  "bind m f s = (case m s of (Inl e, s') \<Rightarrow> (Inl e, s') | (Inr x, s') \<Rightarrow> f x s')"
  by (simp add: bind_def)

lemma emit_run: "emit ev (tr, w) = (Inr (), tr @ [ev], w)"
  by (simp add: emit_def)

lemma os_read_run: "os_read f (tr, w) = (Inr (f w), tr, w)"
  by (simp add: os_read_def)

lemma os_call_run:
  "os_call f (tr, w) = (case f w of Inl e \<Rightarrow> (Inl e, tr, w) | Inr w' \<Rightarrow> (Inr (), tr, w'))"
  by (simp add: os_call_def split: sum.splits)

lemma lift_result_run:
  "lift_result r s = (case r of Inl e \<Rightarrow> (Inl e, s) | Inr x \<Rightarrow> (Inr x, s))"
  by (simp add: lift_result_def ret_def raise_def split: sum.splits)

lemma exists_p_run:
  "exists_p env p (tr, w) =
     (Inr (path_exists env w p), tr @ [Exists p (path_exists env w p)], w)"
  by (simp add: exists_p_def bind_run os_read_run emit_run ret_run)

lemma mkdir_run:
  "mkdir env p (tr, w) =
     (case os_mkdir env p w of
        Inl e \<Rightarrow> (Inl e, tr @ [Mkdir p], w)
      | Inr w' \<Rightarrow> (Inr (), tr @ [Mkdir p], w'))"
  by (simp add: mkdir_def bind_run emit_run os_call_run split: sum.splits)

lemma print_run: "print s (tr, w) = (Inr (), tr @ [Stdout s], w)"
  by (simp add: print_def emit_run)

lemma print_err_run: "print_err s (tr, w) = (Inr (), tr @ [Stderr s], w)"
  by (simp add: print_err_def emit_run)

lemma run_command_run:
  "run_command env cmd dry_run cwd (tr, w) =
     (if dry_run then (Inr (), tr @ [echo env cmd], w)
      else case subprocess_run env cmd cwd w of
             Inl e \<Rightarrow> (Inl e, tr @ [echo env cmd, Subprocess cmd cwd], w)
           | Inr w' \<Rightarrow> (Inr (), tr @ [echo env cmd, Subprocess cmd cwd], w'))"
  by (simp add: run_command_def echo_def bind_run print_run emit_run os_call_run ret_run
      split: sum.splits)

lemma resolve_cutadapt_cmd_run:
  "resolve_cutadapt_cmd env (tr, w) = (Inr (cutadapt_cmd_at env w), tr, w)"
  by (simp add: resolve_cutadapt_cmd_def cutadapt_cmd_at_def bind_run os_read_run ret_run
      split: option.splits)

lemma which_assemblepairs_run:
  "which_assemblepairs env (tr, w) = (which_found env w, tr, w)"
  by (simp add: which_assemblepairs_def which_found_def bind_run os_read_run ret_run raise_run
      split: option.splits)

lemma resolve_assemblepairs_path_run:
  "resolve_assemblepairs_path env None (tr, w) =
     (assemblepairs_found env w, tr @ assemblepairs_checks env w, w)"
  by (simp add: resolve_assemblepairs_path_def assemblepairs_found_def assemblepairs_checks_def
      nonempty_def [of None] bind_run exists_p_run ret_run which_assemblepairs_run
      split: option.splits)

lemma main_setup_run:
  "main_setup env args (tr, w) =
     (case os_mkdir env (base_outdir_of env args) w of
        Inl e \<Rightarrow> (Inl e, tr @ [Mkdir (base_outdir_of env args)], w)
      | Inr w1 \<Rightarrow>
          (case validate_run_id (run_id_of env args) of
             Inl e \<Rightarrow> (Inl e, tr @ [Mkdir (base_outdir_of env args)], w1)
           | Inr _ \<Rightarrow>
               (case os_mkdir env (run_dir_of env args) w1 of
                  Inl e \<Rightarrow>
                    (Inl e, tr @ [Mkdir (base_outdir_of env args), Mkdir (run_dir_of env args)], w1)
                | Inr w2 \<Rightarrow>
                    (case os_mkdir env (path_parent env (assemble_outname_of env args)) w2 of
                       Inl e \<Rightarrow>
                         (Inl e, tr @ [Mkdir (base_outdir_of env args), Mkdir (run_dir_of env args),
                            Mkdir (path_parent env (assemble_outname_of env args))], w2)
                     | Inr w3 \<Rightarrow>
                         (Inr (), tr @ [Mkdir (base_outdir_of env args), Mkdir (run_dir_of env args),
                            Mkdir (path_parent env (assemble_outname_of env args))], w3)))))"
  by (simp add: main_setup_def bind_run mkdir_run lift_result_run split: sum.splits)

lemma main_pre_trim_run:
  "main_pre_trim env args (tr, w) =
     (if arg_mode args = ''trim-merge''
      then run_command env (paired_cmd env args (cutadapt_cmd_at env w)) (arg_dry_run args) None
             (tr, w)
      else (Inr (), tr, w))"
  by (simp add: main_pre_trim_def run_cutadapt_paired_def paired_cmd_def bind_run
      resolve_cutadapt_cmd_run ret_run)

lemma main_assemble_run:
  "main_assemble env args (tr, w) =
     (case assemblepairs_found env w of
        Inl e \<Rightarrow> (Inl e, tr @ assemblepairs_checks env w, w)
      | Inr ap \<Rightarrow>
          run_command env (assembly_cmd env args ap) (arg_dry_run args)
            (Some (run_dir_of env args)) (tr @ assemblepairs_checks env w, w))"
  by (simp add: main_assemble_def run_assemblepairs_def assembly_cmd_def bind_run
      resolve_assemblepairs_path_run split: sum.splits)

lemma fastq_to_fasta_run:
  "fastq_to_fasta env src out (tr, w) =
     (case open_read env (path_suffix env src = ''.gz'') w src of
        Inl e \<Rightarrow> (Inl e, tr @ [OpenRead src], w)
      | Inr text \<Rightarrow>
          (case open_write env out (fst (fastq_to_fasta_loop text)) w of
             Inl e \<Rightarrow> (Inl e, tr @ [OpenRead src, WriteText out (fst (fastq_to_fasta_loop text))], w)
           | Inr w' \<Rightarrow>
               (case snd (fastq_to_fasta_loop text) of
                  Some e \<Rightarrow>
                    (Inl e, tr @ [OpenRead src, WriteText out (fst (fastq_to_fasta_loop text))], w')
                | None \<Rightarrow>
                    (Inr (), tr @ [OpenRead src, WriteText out (fst (fastq_to_fasta_loop text))],
                     w'))))"
  by (simp add: fastq_to_fasta_def bind_run emit_run os_read_run os_call_run lift_result_run
      ret_run raise_run split: sum.splits option.splits)

lemma report_run:
  "bind (print ''Done.'') (\<lambda>_.
     bind (print (''output folder: '' @ run_dir_of env args)) (\<lambda>_.
     bind (print (''merged fastq: '' @ fasta_source_of env args)) (\<lambda>_.
     bind (print (''fasta: '' @ fasta_out_of env args)) (\<lambda>_.
     bind (print (''log: '' @ log_path_of env args)) (\<lambda>_.
     ret 0))))) s = (Inr 0, fst s @ report env args, snd s)"
  by (cases s) (simp add: bind_run print_run ret_run report_def)

lemma convert_and_report_run:
  "convert_and_report env args (tr, w) =
     (if arg_dry_run args
      then (Inr 0, tr @ dry_convert_line env args # report env args, w)
      else case fastq_to_fasta env (fasta_source_of env args) (fasta_out_of env args) (tr, w) of
             (Inl e, s) \<Rightarrow> (Inl e, s)
           | (Inr _, tr', w') \<Rightarrow> (Inr 0, tr' @ report env args, w'))"
proof -
  have "convert_and_report env args (tr, w) =
      (case (if arg_dry_run args
           then print (''>> fastq_to_fasta '' @ fasta_source_of env args @ '' -> ''
                         @ fasta_out_of env args)
           else fastq_to_fasta env (fasta_source_of env args) (fasta_out_of env args)) (tr, w) of
         (Inl e, s) \<Rightarrow> (Inl e, s)
       | (Inr _, tr', w') \<Rightarrow> (Inr 0, tr' @ report env args, w'))"
    unfolding convert_and_report_def
    by (subst bind_run, simp only: report_run) (simp split: prod.splits sum.splits)
  then show ?thesis by (simp add: print_run dry_convert_line_def)
qed

lemma main_post_trim_run:
  "main_post_trim env args (tr, w) =
     (case run_command env (single_cmd env args (cutadapt_cmd_at env w)) (arg_dry_run args) None
             (tr, w) of
        (Inl e, s) \<Rightarrow> (Inl e, s)
      | (Inr _, tr', w') \<Rightarrow>
          if arg_dry_run args then convert_and_report env args (tr', w')
          else if path_exists env w' (merge_then_trim_fastq_of env args)
          then convert_and_report env args
                 (tr' @ [Exists (merge_then_trim_fastq_of env args) True], w')
          else (Inr 4, tr' @ [Exists (merge_then_trim_fastq_of env args) False,
                  trim_missing env args], w'))"
  unfolding main_post_trim_def run_cutadapt_single_def
  by (simp add: bind_run resolve_cutadapt_cmd_run single_cmd_def and_then_def exists_p_run
      ret_run print_err_run trim_missing_def split: prod.splits sum.splits)

lemma main_after_assembly_run:
  "main_after_assembly env args (tr, w) =
     (if \<not> arg_dry_run args \<and> \<not> path_exists env w (assemble_pass_of env args)
      then (Inr 3, tr @ [Exists (assemble_pass_of env args) False, pass_missing env args], w)
      else (if arg_mode args = ''merge-trim'' then main_post_trim env args
            else convert_and_report env args) (tr @ pass_seen env args, w))"
  unfolding main_after_assembly_def
  by (simp add: bind_run and_then_def exists_p_run ret_run print_err_run pass_missing_def
      pass_seen_def)

section \<open>Every run of \<open>main\<close> is a described run\<close>

lemma finish_sound:
  "convert_and_report env args (tr, w) = (r, tr', w') \<Longrightarrow> finish_run env args tr r tr'"
  by (auto simp: convert_and_report_run fastq_to_fasta_run
      split: if_splits sum.splits option.splits intro: finish_run.intros)

lemma post_trim_sound:
  assumes "main_post_trim env args (tr, w) = (r, tr', w')"
  shows "post_trim_run env args tr r tr'"
proof (cases "arg_dry_run args")
  case True
  with assms have "convert_and_report env args
      (tr @ [echo env (single_cmd env args (cutadapt_cmd_at env w))], w) = (r, tr', w')"
    by (simp add: main_post_trim_run run_command_run)
  then have "finish_run env args
      (tr @ [echo env (single_cmd env args (cutadapt_cmd_at env w))]) r tr'"
    by (rule finish_sound)
  with True show ?thesis
    by (intro trimmed [where c = "cutadapt_cmd_at env w"]) (simp add: shown_def)
next
  case False
  let ?c = "single_cmd env args (cutadapt_cmd_at env w)"
  show ?thesis
  proof (cases "subprocess_run env ?c None w")
    case (Inl e)
    with False assms show ?thesis
      by (auto simp: main_post_trim_run run_command_run intro: single_failed)
  next
    case (Inr w1)
    show ?thesis
    proof (cases "path_exists env w1 (merge_then_trim_fastq_of env args)")
      case True
      with False Inr assms have "convert_and_report env args
          (tr @ [echo env ?c, Subprocess ?c None,
                 Exists (merge_then_trim_fastq_of env args) True], w1) = (r, tr', w')"
        by (simp add: main_post_trim_run run_command_run)
      then have "finish_run env args
          (tr @ [echo env ?c, Subprocess ?c None,
                 Exists (merge_then_trim_fastq_of env args) True]) r tr'"
        by (rule finish_sound)
      with False show ?thesis
        by (intro trimmed [where c = "cutadapt_cmd_at env w"]) (simp add: shown_def)
    next
      case nf: False
      with False Inr assms show ?thesis
        by (auto simp: main_post_trim_run run_command_run intro: trimmed_missing)
    qed
  qed
qed

lemma after_assembly_sound:
  assumes "main_after_assembly env args (tr, w) = (r, tr', w')"
  shows "after_assembly_run env args tr r tr'"
proof (cases "\<not> arg_dry_run args \<and> \<not> path_exists env w (assemble_pass_of env args)")
  case True
  with assms show ?thesis
    by (auto simp: main_after_assembly_run intro: pass_not_found)
next
  case False
  show ?thesis
  proof (cases "arg_mode args = ''merge-trim''")
    case True
    with False assms have "main_post_trim env args (tr @ pass_seen env args, w) = (r, tr', w')"
      by (auto simp: main_after_assembly_run split: if_splits)
    then have "post_trim_run env args (tr @ pass_seen env args) r tr'"
      by (rule post_trim_sound)
    with True show ?thesis by (rule to_post_trim)
  next
    case nt: False
    with False assms have "convert_and_report env args (tr @ pass_seen env args, w) = (r, tr', w')"
      by (auto simp: main_after_assembly_run split: if_splits)
    then have "finish_run env args (tr @ pass_seen env args) r tr'"
      by (rule finish_sound)
    with nt show ?thesis by (rule to_finish)
  qed
qed

lemma tool_checks_found: "tool_checks env (assemblepairs_checks env w)"
  by (auto simp: tool_checks_def assemblepairs_checks_def split: option.splits)

lemma assemblepairs_found_error:
  "assemblepairs_found env w = Inl e \<Longrightarrow>
   e = FileNotFoundError ''AssemblePairs.py not found. Activate presto_env or install presto.''"
  by (auto simp: assemblepairs_found_def which_found_def split: option.splits if_splits)

lemma assemble_sound:
  assumes "bind (main_assemble env args) (\<lambda>_. main_after_assembly env args) (tr, w)
             = (r, tr', w')"
  shows "assemble_run env args tr r tr'"
proof (cases "assemblepairs_found env w")
  case (Inl e)
  with assms have "r = Inl e" and "tr' = tr @ assemblepairs_checks env w"
    by (auto simp: bind_run main_assemble_run)
  with assemblepairs_found_error [OF Inl] show ?thesis
    by (auto intro: tool_not_found tool_checks_found)
next
  case (Inr ap)
  let ?c = "assembly_cmd env args ap"
  let ?rd = "Some (run_dir_of env args)"
  let ?evs = "assemblepairs_checks env w"
  show ?thesis
  proof (cases "arg_dry_run args")
    case True
    with Inr assms have "main_after_assembly env args (tr @ ?evs @ [echo env ?c], w) = (r, tr', w')"
      by (simp add: bind_run main_assemble_run run_command_run)
    then have "after_assembly_run env args (tr @ ?evs @ [echo env ?c]) r tr'"
      by (rule after_assembly_sound)
    with True show ?thesis
      by (intro assembled [where evs = ?evs and ap = ap] tool_checks_found) (simp add: shown_def)
  next
    case False
    show ?thesis
    proof (cases "subprocess_run env ?c ?rd w")
      case (Inl e)
      with False Inr assms have "r = Inl e" and "tr' = tr @ ?evs @ [echo env ?c, Subprocess ?c ?rd]"
        by (auto simp: bind_run main_assemble_run run_command_run)
      with False show ?thesis
        by (auto intro: assembly_failed tool_checks_found)
    next
      case w1: (Inr w1)
      with False Inr assms have "main_after_assembly env args
          (tr @ ?evs @ [echo env ?c, Subprocess ?c ?rd], w1) = (r, tr', w')"
        by (simp add: bind_run main_assemble_run run_command_run)
      then have "after_assembly_run env args (tr @ ?evs @ [echo env ?c, Subprocess ?c ?rd]) r tr'"
        by (rule after_assembly_sound)
      with False show ?thesis
        by (intro assembled [where evs = ?evs and ap = ap] tool_checks_found)
           (simp add: shown_def)
    qed
  qed
qed

lemma pre_trim_sound:
  assumes "bind (main_pre_trim env args)
             (\<lambda>_. bind (main_assemble env args) (\<lambda>_. main_after_assembly env args)) (tr, w)
             = (r, tr', w')"
  shows "pre_trim_run env args tr r tr'"
proof (cases "arg_mode args = ''trim-merge''")
  case nt: False
  with assms have "bind (main_assemble env args) (\<lambda>_. main_after_assembly env args) (tr, w)
      = (r, tr', w')"
    by (simp add: bind_run [of "main_pre_trim env args"] main_pre_trim_run)
  then have "assemble_run env args tr r tr'" by (rule assemble_sound)
  with nt show ?thesis by (rule no_pre_trim)
next
  case True
  let ?c = "paired_cmd env args (cutadapt_cmd_at env w)"
  show ?thesis
  proof (cases "arg_dry_run args")
    case dry: True
    with True assms have
      "bind (main_assemble env args) (\<lambda>_. main_after_assembly env args) (tr @ [echo env ?c], w)
         = (r, tr', w')"
      by (simp add: bind_run [of "main_pre_trim env args"] main_pre_trim_run run_command_run)
    then have "assemble_run env args (tr @ [echo env ?c]) r tr'" by (rule assemble_sound)
    with True dry show ?thesis
      by (intro pre_trimmed [where c = "cutadapt_cmd_at env w"]) (simp_all add: shown_def)
  next
    case False
    show ?thesis
    proof (cases "subprocess_run env ?c None w")
      case (Inl e)
      with True False assms show ?thesis
        by (auto simp: bind_run [of "main_pre_trim env args"] main_pre_trim_run run_command_run
            intro: paired_failed)
    next
      case (Inr w1)
      with True False assms have
        "bind (main_assemble env args) (\<lambda>_. main_after_assembly env args)
           (tr @ [echo env ?c, Subprocess ?c None], w1) = (r, tr', w')"
        by (simp add: bind_run [of "main_pre_trim env args"] main_pre_trim_run run_command_run)
      then have "assemble_run env args (tr @ [echo env ?c, Subprocess ?c None]) r tr'"
        by (rule assemble_sound)
      with True False show ?thesis
        by (intro pre_trimmed [where c = "cutadapt_cmd_at env w"]) (simp_all add: shown_def)
    qed
  qed
qed

lemma pipeline_sound:
  "pipeline env args (tr, w) = (r, tr', w') \<Longrightarrow> pre_trim_run env args tr r tr'"
  unfolding pipeline_def by (rule pre_trim_sound)

lemma run_main_eq:
  "run_main env args w =
     (if \<not> path_exists env w (path_of env (arg_r1 args))
      then (Inr 2, [Exists (path_of env (arg_r1 args)) False, r1_missing_line env args], w)
      else if \<not> path_exists env w (path_of env (arg_r2 args))
      then (Inr 2, [Exists (path_of env (arg_r1 args)) True,
                    Exists (path_of env (arg_r2 args)) False, r2_missing_line env args], w)
      else case main_setup env args (checked env args, w) of
             (Inl e, s) \<Rightarrow> (Inl e, s)
           | (Inr _, s) \<Rightarrow> pipeline env args s)"
  unfolding run_main_def main_def Let_def
  apply (fold pipeline_def)
  apply (simp add: bind_run exists_p_run print_err_run ret_run checked_def
      r1_missing_line_def r2_missing_line_def)
  done

theorem main_sound:
  "main_run env args w (exit_of (run_main env args w)) (trace_of (run_main env args w))"
proof (cases "path_exists env w (path_of env (arg_r1 args))")
  case False
  then show ?thesis
    by (simp add: run_main_eq exit_of_def trace_of_def r1_missing)
next
  case e1: True
  show ?thesis
  proof (cases "path_exists env w (path_of env (arg_r2 args))")
    case False
    with e1 show ?thesis
      by (simp add: run_main_eq exit_of_def trace_of_def r2_missing)
  next
    case e2: True
    show ?thesis
    proof (cases "os_mkdir env (base_outdir_of env args) w")
      case (Inl e)
      with e1 e2 show ?thesis
        by (simp add: run_main_eq main_setup_run exit_of_def trace_of_def mkdir_base_failed)
    next
      case w1: (Inr w1)
      show ?thesis
      proof (cases "validate_run_id (run_id_of env args)")
        case (Inl e)
        with e1 e2 w1 show ?thesis
          by (simp add: run_main_eq main_setup_run exit_of_def trace_of_def
              invalid_run_id [where ?w1.0 = w1])
      next
        case valid: (Inr u)
        show ?thesis
        proof (cases "os_mkdir env (run_dir_of env args) w1")
          case (Inl e)
          with e1 e2 w1 valid show ?thesis
            by (simp add: run_main_eq main_setup_run exit_of_def trace_of_def
                mkdir_run_failed [where ?w1.0 = w1])
        next
          case w2: (Inr w2)
          show ?thesis
          proof (cases "os_mkdir env (path_parent env (assemble_outname_of env args)) w2")
            case (Inl e)
            with e1 e2 w1 valid w2 show ?thesis
              by (simp add: run_main_eq main_setup_run exit_of_def trace_of_def
                  mkdir_parent_failed [where ?w2.0 = w2])
          next
            case w3: (Inr w3)
            let ?pre = "checked env args @ [Mkdir (base_outdir_of env args),
              Mkdir (run_dir_of env args), Mkdir (path_parent env (assemble_outname_of env args))]"
            obtain r tr' w' where p: "pipeline env args (?pre, w3) = (r, tr', w')"
              by (cases "pipeline env args (?pre, w3)") auto
            then have "pre_trim_run env args ?pre r tr'" by (rule pipeline_sound)
            with e1 e2 valid have "main_run env args w r tr'"
              by (intro set_up) simp_all
            moreover from e1 e2 w1 valid w2 w3 p have "run_main env args w = (r, tr', w')"
              by (simp add: run_main_eq main_setup_run)
            ultimately show ?thesis by (simp add: exit_of_def trace_of_def)
          qed
        qed
      qed
    qed
  qed
qed

section \<open>Concrete runs\<close>


lemma demo_run_subprocesses:
  "filter is_subprocess (trace_of (run_main demo_env demo_args demo_files)) =
     [Subprocess
        [''python3'', ''/usr/bin/AssemblePairs.py'', ''align'', ''-1'', ''in/S1_R2.fastq'',
         ''-2'', ''in/S1_R1.fastq'', ''--coord'', ''illumina'', ''--rc'', ''tail'', ''--outname'',
         ''out/S1_withoutTrim_run1/S1_withoutTrim_run1_presto'', ''--log'',
         ''out/S1_withoutTrim_run1/S1_withoutTrim_run1_AP_align.log'']
        (Some ''out/S1_withoutTrim_run1'')]"
  by code_simp


lemma merge_trim_run_exit: "exit_of (run_main demo_env merge_trim_args demo_files) = Inr 0"
  by code_simp





lemma bad_run_id_run:
  "run_main demo_env bad_run_id_args demo_files =
     (Inl (ValueError (''--run-id contains invalid characters: '' @ invalid_chars)),
      [Exists ''in/S1_R1.fastq'' True, Exists ''in/S1_R2.fastq'' True, Mkdir ''out''],
      (''out'', []) # demo_files)"
  by code_simp

section \<open>Exit codes\<close>

lemmas run_cases =
  main_run.cases pre_trim_run.cases assemble_run.cases after_assembly_run.cases
  post_trim_run.cases finish_run.cases

lemmas trace_defs =
  checked_def shown_def pass_seen_def report_def tool_checks_def echo_def
  pass_missing_def trim_missing_def r1_missing_line_def r2_missing_line_def
  dry_convert_line_def









section \<open>An invalid run identifier\<close>

lemma dropWhile_keeps: "x \<in> set xs \<Longrightarrow> \<not> P x \<Longrightarrow> x \<in> set (dropWhile P xs)"
  by (induction xs) auto

lemma strip_keeps: "c \<in> set s \<Longrightarrow> \<not> isspace c \<Longrightarrow> c \<in> set (strip s)"
  by (simp add: strip_def lstrip_def rstrip_def dropWhile_keeps)

lemma invalid_not_space: "ch \<in> set invalid_chars \<Longrightarrow> \<not> isspace ch"
  by (auto simp: invalid_chars_def isspace_def whitespace_def)

lemma invalid_run_id_rejected:
  assumes "arg_run_id args = Some rid" and "ch \<in> set rid" and "ch \<in> set invalid_chars"
  shows "validate_run_id (run_id_of env args) =
    Inl (ValueError (''--run-id contains invalid characters: '' @ invalid_chars))"
proof -
  from assms have "rid \<noteq> []" by auto
  with assms have "run_id_of env args = strip rid"
    by (simp add: run_id_of_def nonempty_def)
  moreover from assms have "ch \<in> set (strip rid)"
    by (intro strip_keeps invalid_not_space)
  ultimately show ?thesis
    using assms by (auto simp: validate_run_id_def)
qed

lemma invalid_run_id_runs:
  assumes "main_run env args w r tr"
    and "validate_run_id (run_id_of env args) = Inl v"
  shows "(\<forall>ev \<in> set tr.
            \<not> is_subprocess ev \<and> (is_mkdir ev \<longrightarrow> ev = Mkdir (base_outdir_of env args)))
    \<and> (r = Inr 2 \<or> r = Inl v
        \<or> (\<exists>e. r = Inl e \<and> os_mkdir env (base_outdir_of env args) w = Inl e))
    \<and> (path_exists env w (path_of env (arg_r1 args))
        \<and> path_exists env w (path_of env (arg_r2 args))
        \<longrightarrow> tr =
              [Exists (path_of env (arg_r1 args)) True, Exists (path_of env (arg_r2 args)) True,
               Mkdir (base_outdir_of env args)])
    \<and> (r = Inl v
        \<longrightarrow> tr =
              [Exists (path_of env (arg_r1 args)) True, Exists (path_of env (arg_r2 args)) True,
               Mkdir (base_outdir_of env args)])"
  using assms by (auto elim!: main_run.cases simp: trace_defs)

text \<open>
  Claim C2, as the code has it. When the run identifier given on the command line
  contains one of the invalid characters, no external process is run and the run
  directory is not made, but \<open>main\<close> makes the base output directory (line 361) before
  it checks the identifier (line 365): with both inputs there, the trace is the two
  input checks followed by that one \<open>mkdir\<close>. The run ends with exit code 2 (an input
  is missing), with the error of the run identifier, or with the error of that
  \<open>mkdir\<close>.
\<close>

theorem invalid_run_id_aborts:
  assumes "arg_run_id args = Some rid" and "ch \<in> set rid" and "ch \<in> set invalid_chars"
  shows "(\<forall>ev \<in> set (trace_of (run_main env args w)).
            \<not> is_subprocess ev \<and> (is_mkdir ev \<longrightarrow> ev = Mkdir (base_outdir_of env args)))
    \<and> (exit_of (run_main env args w) = Inr 2
        \<or> exit_of (run_main env args w) =
             Inl (ValueError (''--run-id contains invalid characters: '' @ invalid_chars))
        \<or> (\<exists>e. exit_of (run_main env args w) = Inl e
                \<and> os_mkdir env (base_outdir_of env args) w = Inl e))
    \<and> (path_exists env w (path_of env (arg_r1 args))
        \<and> path_exists env w (path_of env (arg_r2 args))
        \<longrightarrow> trace_of (run_main env args w) =
              [Exists (path_of env (arg_r1 args)) True, Exists (path_of env (arg_r2 args)) True,
               Mkdir (base_outdir_of env args)])
    \<and> (exit_of (run_main env args w) =
          Inl (ValueError (''--run-id contains invalid characters: '' @ invalid_chars))
        \<longrightarrow> trace_of (run_main env args w) =
              [Exists (path_of env (arg_r1 args)) True, Exists (path_of env (arg_r2 args)) True,
               Mkdir (base_outdir_of env args)])"
  by (rule invalid_run_id_runs [OF main_sound invalid_run_id_rejected [OF assms]])

theorem invalid_run_id_aborts_witness:
  "arg_run_id bad_run_id_args = Some ''a:b'' \<and> CHR '':'' \<in> set ''a:b''
   \<and> CHR '':'' \<in> set invalid_chars
   \<and> exit_of (run_main demo_env bad_run_id_args demo_files) =
       Inl (ValueError (''--run-id contains invalid characters: '' @ invalid_chars))
   \<and> trace_of (run_main demo_env bad_run_id_args demo_files) =
       [Exists (path_of demo_env (arg_r1 bad_run_id_args)) True,
        Exists (path_of demo_env (arg_r2 bad_run_id_args)) True,
        Mkdir (base_outdir_of demo_env bad_run_id_args)]"
proof -
  have a: "arg_run_id bad_run_id_args = Some ''a:b''"
    by (simp add: bad_run_id_args_def)
  have b: "CHR '':'' \<in> set ''a:b''" by simp
  have c: "CHR '':'' \<in> set invalid_chars" by (simp add: invalid_chars_def)
  have e: "exit_of (run_main demo_env bad_run_id_args demo_files) =
      Inl (ValueError (''--run-id contains invalid characters: '' @ invalid_chars))"
    by (simp add: bad_run_id_run exit_of_def)
  from invalid_run_id_aborts [OF a b c, of demo_env demo_files]
  have "exit_of (run_main demo_env bad_run_id_args demo_files) =
        Inl (ValueError (''--run-id contains invalid characters: '' @ invalid_chars))
      \<longrightarrow> trace_of (run_main demo_env bad_run_id_args demo_files) =
        [Exists (path_of demo_env (arg_r1 bad_run_id_args)) True,
         Exists (path_of demo_env (arg_r2 bad_run_id_args)) True,
         Mkdir (base_outdir_of demo_env bad_run_id_args)]"
    by (elim conjE)
  with e have "trace_of (run_main demo_env bad_run_id_args demo_files) =
        [Exists (path_of demo_env (arg_r1 bad_run_id_args)) True,
         Exists (path_of demo_env (arg_r2 bad_run_id_args)) True,
         Mkdir (base_outdir_of demo_env bad_run_id_args)]"
    by (rule rev_mp)
  with a b c e show ?thesis by (intro conjI)
qed

text \<open>
  The claim as the specification states it fails: with the run identifier \<open>a:b\<close> the
  base output directory \<open>out\<close>, which was not there, is made before the identifier is
  rejected.
\<close>

theorem invalid_run_id_mkdir_counterexample:
  "CHR '':'' \<in> set (the (arg_run_id bad_run_id_args))
   \<and> exit_of (run_main demo_env bad_run_id_args demo_files) =
       Inl (ValueError (''--run-id contains invalid characters: '' @ invalid_chars))
   \<and> Mkdir ''out'' \<in> set (trace_of (run_main demo_env bad_run_id_args demo_files))
   \<and> \<not> path_exists demo_env demo_files ''out''
   \<and> path_exists demo_env (world_of (run_main demo_env bad_run_id_args demo_files)) ''out''"
proof -
  have "\<not> path_exists demo_env demo_files ''out''"
    by (simp add: demo_env_def demo_files_def)
  moreover have "path_exists demo_env ((''out'', []) # demo_files) ''out''"
    by (simp add: demo_env_def)
  moreover have "CHR '':'' \<in> set (the (arg_run_id bad_run_id_args))"
    by (simp add: bad_run_id_args_def)
  ultimately show ?thesis
    by (simp add: bad_run_id_run exit_of_def trace_of_def world_of_def)
qed

section \<open>The external calls of each mode\<close>






section \<open>Dry runs\<close>












section \<open>The assembly command\<close>

lemma run_assemblepairs_events:
  "Subprocess cmd cwd \<in> set (fst (snd (run_assemblepairs env r1 r2 outname coord rc log_path
       failed swap_r1r2 dry_run outdir ([], w)))) \<Longrightarrow>
   cwd = Some outdir
   \<and> (\<exists>ap. cmd = assemble_cmd (sys_executable env) ap r1 r2 outname coord rc log_path failed
          swap_r1r2)"
  by (auto simp: run_assemblepairs_def bind_run resolve_assemblepairs_path_run run_command_run
      assemblepairs_checks_def echo_def split: sum.splits option.splits if_splits)

lemma assembly_cwd:
  assumes "main_run env args w r tr" and "Subprocess cmd (Some d) \<in> set tr"
  shows "d = run_dir_of env args \<and> (\<exists>ap. cmd = assembly_cmd env args ap)"
  using assms by (auto elim!: run_cases simp: trace_defs split: if_splits)

text \<open>
  Claim C8. The command of the assembly gives R2 after \<open>-1\<close> and R1 after \<open>-2\<close>; with
  the swap flag set it gives R1 after \<open>-1\<close> and R2 after \<open>-2\<close>. Every process that
  \<open>run_assemblepairs\<close> starts is this command, with the directory passed as \<open>outdir\<close> as
  its working directory; in \<open>main\<close> every process that is started with a working
  directory is the assembly, and the directory is the run directory.
\<close>

theorem assembly_order_and_cwd:
  "take 7 (assemble_cmd executable ap r1 r2 outname coord rc log_path failed swap_r1r2) =
     [executable, ap, ''align'',
      ''-1'', (if swap_r1r2 then r1 else r2),
      ''-2'', (if swap_r1r2 then r2 else r1)]
   \<and> (\<forall>cmd cwd.
        Subprocess cmd cwd \<in> set (fst (snd (run_assemblepairs env r1 r2 outname coord rc log_path
            failed swap_r1r2 dry_run outdir ([], w)))) \<longrightarrow>
        cwd = Some outdir
        \<and> (\<exists>ap. cmd = assemble_cmd (sys_executable env) ap r1 r2 outname coord rc log_path
               failed swap_r1r2))
   \<and> (\<forall>cmd d.
        Subprocess cmd (Some d) \<in> set (trace_of (run_main env args w)) \<longrightarrow>
        d = run_dir_of env args
        \<and> (\<exists>ap. cmd = assemble_cmd (sys_executable env) ap (assemble_r1_of env args)
               (assemble_r2_of env args) (assemble_outname_of env args) (arg_coord args)
               (arg_rc args) (log_path_of env args) (arg_failed args) (arg_swap_r1r2 args)))"
proof -
  have "take 7 (assemble_cmd executable ap r1 r2 outname coord rc log_path failed swap_r1r2) =
     [executable, ap, ''align'',
      ''-1'', (if swap_r1r2 then r1 else r2),
      ''-2'', (if swap_r1r2 then r2 else r1)]"
    by (simp add: assemble_cmd_def Let_def)
  moreover have "\<forall>cmd d.
      Subprocess cmd (Some d) \<in> set (trace_of (run_main env args w)) \<longrightarrow>
      d = run_dir_of env args
      \<and> (\<exists>ap. cmd = assemble_cmd (sys_executable env) ap (assemble_r1_of env args)
             (assemble_r2_of env args) (assemble_outname_of env args) (arg_coord args)
             (arg_rc args) (log_path_of env args) (arg_failed args) (arg_swap_r1r2 args))"
    using assembly_cwd [OF main_sound, of _ _ env args w]
    by (simp add: assembly_cmd_def)
  ultimately show ?thesis
    using run_assemblepairs_events [of _ _ env r1 r2 outname coord rc log_path failed
        swap_r1r2 dry_run outdir w]
    by blast
qed

theorem assembly_order_and_cwd_witness:
  "Subprocess
     [''python3'', ''/usr/bin/AssemblePairs.py'', ''align'', ''-1'', ''in/S1_R2.fastq'',
      ''-2'', ''in/S1_R1.fastq'', ''--coord'', ''illumina'', ''--rc'', ''tail'', ''--outname'',
      ''out/S1_withoutTrim_run1/S1_withoutTrim_run1_presto'', ''--log'',
      ''out/S1_withoutTrim_run1/S1_withoutTrim_run1_AP_align.log'']
     (Some ''out/S1_withoutTrim_run1'')
     \<in> set (trace_of (run_main demo_env demo_args demo_files))
   \<and> ''out/S1_withoutTrim_run1'' = run_dir_of demo_env demo_args
   \<and> \<not> arg_swap_r1r2 demo_args"
proof -
  let ?ev = "Subprocess
     [''python3'', ''/usr/bin/AssemblePairs.py'', ''align'', ''-1'', ''in/S1_R2.fastq'',
      ''-2'', ''in/S1_R1.fastq'', ''--coord'', ''illumina'', ''--rc'', ''tail'', ''--outname'',
      ''out/S1_withoutTrim_run1/S1_withoutTrim_run1_presto'', ''--log'',
      ''out/S1_withoutTrim_run1/S1_withoutTrim_run1_AP_align.log'']
     (Some ''out/S1_withoutTrim_run1'')"
  have "?ev \<in> set (filter is_subprocess (trace_of (run_main demo_env demo_args demo_files)))"
    by (simp only: demo_run_subprocesses) simp
  then have m: "?ev \<in> set (trace_of (run_main demo_env demo_args demo_files))"
    by simp
  moreover from m
    assembly_order_and_cwd [where env = demo_env and args = demo_args and w = demo_files]
  have "''out/S1_withoutTrim_run1'' = run_dir_of demo_env demo_args"
    by blast
  moreover have "\<not> arg_swap_r1r2 demo_args"
    by (simp add: demo_args_def)
  ultimately show ?thesis by (intro conjI)
qed

end
